theory Spec2Isabelle
  imports Main "HOL-Library.Sublist" "HOL-Library.Multiset"
begin

section \<open>Errors and the per-connection error history (src/lib/streams.ts)\<close>

text \<open>
  What an operation can catch: a rejection of the RPC transport (\<open>{code, message}\<close>), a
  failure of the BOLT12 decoder, a failure of a unit conversion or of the msat formatter,
  or a runtime type error.
\<close>

datatype raw_error =
    RpcError int string
  | DecodeError string
  | FormatError string
  | ConversionError string
  | TypeError string

text \<open>
  \<open>AppError\<close> as \<open>streams.ts\<close> reads it: a \<open>key\<close> and a \<open>detail\<close> that carries the
  (optional) \<open>connectionId\<close>. The detail also carries the operation context and the raw
  error that was caught.
\<close>

record error_detail =
  op_context :: string
  connectionId :: "string option"
  cause :: raw_error

record app_error =
  key :: string
  detail :: error_detail

text \<open>\<open>type ConnectionErrors = Record<connectionId, AppError[]>\<close>\<close>

type_synonym connection_errors = "string \<rightharpoonup> app_error list"

text \<open>\<open>filter((error) => error.key.startsWith('connection_'))\<close>\<close>

definition connection_key :: "app_error \<Rightarrow> bool" where
  "connection_key error = prefix ''connection_'' (key error)"

text \<open>
  The accumulator function of \<open>scan\<close>. \<open>!connectionId\<close> holds for \<open>undefined\<close> and for
  the empty string; \<open>!acc[connectionId]\<close> holds exactly when the key has no array yet (an
  array, even an empty one, is truthy); \<open>errors.push(value)\<close> appends at the end, and
  \<open>errors.length = Math.min(errors.length, 10)\<close> cuts the array after its first ten
  elements. The accumulator is the own-property table of the object \<open>acc\<close>; connection
  ids are random identifiers, not names of members of \<open>Object.prototype\<close>.
\<close>

definition scan_step :: "connection_errors \<Rightarrow> app_error \<Rightarrow> connection_errors" where
  "scan_step acc val =
     (case connectionId (detail val) of
        None \<Rightarrow> acc
      | Some cid \<Rightarrow>
          if cid = [] then acc
          else
            let errors = (case acc cid of None \<Rightarrow> [] | Some es \<Rightarrow> es) @ [val]
            in acc(cid \<mapsto> take (min (length errors) 10) errors))"

text \<open>
  \<open>connectionErrors$\<close>: the value the observable holds after the events \<open>pushed\<close> have
  gone through \<open>errors$\<close>, in that order (\<open>startWith({})\<close> for no event at all).
\<close>

definition connectionErrors :: "app_error list \<Rightarrow> connection_errors" where
  "connectionErrors pushed = foldl scan_step Map.empty (filter connection_key pushed)"

text \<open>A connection error number \<open>i\<close> of connection \<open>cid\<close>, to run the history on.\<close>

definition sample_error :: "string \<Rightarrow> nat \<Rightarrow> app_error" where
  "sample_error cid i =
     \<lparr>key = ''connection_error'',
      detail = \<lparr>op_context = ''get (offers)'', connectionId = Some cid,
                cause = RpcError (int i) ''rejected''\<rparr>\<rparr>"


section \<open>Decimal amounts\<close>

text \<open>
  Amounts are decimal strings. The conversion module (\<open>$lib/conversion.js\<close>), the msat
  formatter (\<open>./utils.js\<close>) and \<open>big.js\<close> are not among the sources; the definitions of
  this section follow the specification's component "AmountConverter", on the integer
  strings that the specification gives as their domain.
\<close>

definition digit_value :: "char \<Rightarrow> nat option" where
  "digit_value c =
     map_of [(CHR ''0'', 0), (CHR ''1'', 1), (CHR ''2'', 2), (CHR ''3'', 3), (CHR ''4'', 4),
             (CHR ''5'', 5), (CHR ''6'', 6), (CHR ''7'', 7), (CHR ''8'', 8), (CHR ''9'', 9)] c"

fun parse_digits :: "string \<Rightarrow> nat \<Rightarrow> nat option" where
  "parse_digits [] acc = Some acc"
| "parse_digits (c # cs) acc =
     (case digit_value c of None \<Rightarrow> None | Some d \<Rightarrow> parse_digits cs (10 * acc + d))"

definition parse_nat :: "string \<Rightarrow> nat option" where
  "parse_nat s = (if s = [] then None else parse_digits s 0)"

definition digit_char :: "nat \<Rightarrow> char" where
  "digit_char d = ''0123456789'' ! (d mod 10)"

fun show_nat :: "nat \<Rightarrow> string" where
  "show_nat n = (if n < 10 then [digit_char n] else show_nat (n div 10) @ [digit_char (n mod 10)])"

declare show_nat.simps [simp del]

text \<open>
  Modelled from the spec: \<open>Big\<close> of big.js, the arbitrary-precision decimal the
  specification prescribes for amounts, restricted to integers: \<open>Big s\<close> reads an integer
  string with an optional minus sign and throws on anything else; \<open>Big_toString\<close> prints
  it back.
\<close>

definition Big :: "string \<Rightarrow> raw_error + int" where
  "Big s =
     (case s of
        [] \<Rightarrow> Inl (ConversionError s)
      | c # ds \<Rightarrow>
          if c = CHR ''-'' then
            (case parse_nat ds of None \<Rightarrow> Inl (ConversionError s) | Some n \<Rightarrow> Inr (- int n))
          else
            (case parse_nat s of None \<Rightarrow> Inl (ConversionError s) | Some n \<Rightarrow> Inr (int n)))"

definition Big_toString :: "int \<Rightarrow> string" where
  "Big_toString i = (if i < 0 then CHR ''-'' # show_nat (nat (- i)) else show_nat (nat i))"

text \<open>
  Modelled from the spec: \<open>satsToMsats\<close> of \<open>$lib/conversion.js\<close>, "multiply by 1000,
  exact (no rounding needed, integral sats)".
\<close>

definition satsToMsats :: "string \<Rightarrow> raw_error + string" where
  "satsToMsats sats =
     (case Big sats of Inl e \<Rightarrow> Inl e | Inr n \<Rightarrow> Inr (Big_toString (n * 1000)))"

text \<open>
  Modelled from the spec: \<open>msatsToSats\<close> of \<open>$lib/conversion.js\<close>, "divide by 1000 using
  arbitrary-precision decimal", where "whole sats round to nearest integer". The
  specification does not say how a tie is broken; \<open>nearest_sat\<close> rounds it away from zero.
\<close>

definition nearest_sat :: "int \<Rightarrow> int" where
  "nearest_sat msats =
     (if 0 \<le> msats then (msats + 500) div 1000 else - ((- msats + 500) div 1000))"

definition msatsToSats :: "string \<Rightarrow> raw_error + string" where
  "msatsToSats msats =
     (case Big msats of Inl e \<Rightarrow> Inl e | Inr n \<Rightarrow> Inr (Big_toString (nearest_sat n)))"

text \<open>
  Modelled from the spec: \<open>formatMsatString\<close> of \<open>./utils.js\<close>, which "strips a unit suffix
  (e.g. a trailing "msat" token) some RPC responses append, returning a bare numeric
  string; fails with FormatError if the remaining content is not a valid non-negative
  integer". An \<open>undefined\<close> argument has no such content.
\<close>

definition formatMsatString :: "string option \<Rightarrow> raw_error + string" where
  "formatMsatString raw =
     (case raw of
        None \<Rightarrow> Inl (FormatError ''undefined'')
      | Some s \<Rightarrow>
          let bare = (if suffix ''msat'' s then take (length s - 4) s else s)
          in if parse_nat bare = None then Inl (FormatError s) else Inr bare)"

section \<open>JavaScript values and promises\<close>

text \<open>The values that go into RPC parameters.\<close>

datatype jsval = JUndefined | JString string | JNumber int | JBool bool

definition js_string :: "string option \<Rightarrow> jsval" where
  "js_string v = (case v of None \<Rightarrow> JUndefined | Some s \<Rightarrow> JString s)"

definition js_number :: "int option \<Rightarrow> jsval" where
  "js_number v = (case v of None \<Rightarrow> JUndefined | Some n \<Rightarrow> JNumber n)"

definition js_bool :: "bool option \<Rightarrow> jsval" where
  "js_bool v = (case v of None \<Rightarrow> JUndefined | Some b \<Rightarrow> JBool b)"

text \<open>
  Truthiness of an optional string and of an optional number: \<open>undefined\<close>, the empty
  string and \<open>0\<close> are falsy.
\<close>

definition truthy_string :: "string option \<Rightarrow> bool" where
  "truthy_string v = (case v of None \<Rightarrow> False | Some s \<Rightarrow> s \<noteq> [])"

definition truthy_number :: "int option \<Rightarrow> bool" where
  "truthy_number v = (case v of None \<Rightarrow> False | Some n \<Rightarrow> n \<noteq> 0)"

text \<open>
  \<open>Promise.all\<close>. Each promise of the array has an outcome (rejected \<open>Inl\<close>, fulfilled
  \<open>Inr\<close>) and settles at some time \<open>settled_at i\<close>, \<open>i\<close> its index. \<open>settle\<close> goes through
  the promises in the order in which they settle: a fulfilment is stored under the index
  of its promise, the first rejection rejects the whole. When all are fulfilled, the result
  is the array of the stored values by index.
\<close>

fun settle :: "(nat \<times> ('e + 'a)) list \<Rightarrow> (nat \<times> 'a) list \<Rightarrow> 'e + (nat \<times> 'a) list" where
  "settle [] stored = Inr stored"
| "settle ((i, Inl e) # later) stored = Inl e"
| "settle ((i, Inr v) # later) stored = settle later (stored @ [(i, v)])"

definition Promise_all :: "('e + 'a) list \<Rightarrow> (nat \<Rightarrow> nat) \<Rightarrow> 'e + 'a list" where
  "Promise_all promises settled_at =
     (case settle (sort_key (settled_at \<circ> fst) (enumerate 0 promises)) [] of
        Inl e \<Rightarrow> Inl e
      | Inr stored \<Rightarrow> Inr (map snd (sort_key fst stored)))"


definition Promise_all2 :: "'e + 'a \<Rightarrow> 'e + 'b \<Rightarrow> bool \<Rightarrow> 'e + 'a \<times> 'b" where
  "Promise_all2 p q p_settles_first =
     (case p of
        Inr a \<Rightarrow> (case q of Inr b \<Rightarrow> Inr (a, b) | Inl e \<Rightarrow> Inl e)
      | Inl e1 \<Rightarrow> (case q of Inr b \<Rightarrow> Inl e1 | Inl e2 \<Rightarrow> Inl (if p_settles_first then e1 else e2)))"

text \<open>\<open>a || b\<close> on optional strings.\<close>

definition or_else :: "string option \<Rightarrow> string option \<Rightarrow> string option" where
  "or_else a b = (if truthy_string a then a else b)"

section \<open>The RPC connection and the data of the offers modules\<close>

datatype params = NoParams | Named "(string \<times> jsval) list" | Positional "jsval list"

record rpc_request =
  rpc_method :: string
  rpc_params :: params

text \<open>Entries of \<open>listoffers\<close> and \<open>listinvoicerequests\<close>, with the fields that are read.\<close>

record offer_summary =
  os_offer_id :: string
  os_bolt12 :: string
  os_active :: bool
  os_single_use :: bool
  os_used :: bool
  os_label :: "string option"

record invoice_request_summary =
  irs_invreq_id :: string
  irs_bolt12 :: string
  irs_active :: bool
  irs_single_use :: bool
  irs_used :: bool
  irs_label :: "string option"

record create_pay_offer_response =
  cpr_offer_id :: string
  cpr_bolt12 :: string
  cpr_used :: bool
  cpr_single_use :: bool
  cpr_active :: bool

record create_withdraw_offer_response =
  cwr_invreq_id :: string
  cwr_bolt12 :: string
  cwr_used :: bool
  cwr_single_use :: bool
  cwr_active :: bool

record send_invoice_response =
  sir_payment_hash :: string
  sir_payment_preimage :: "string option"
  sir_status :: string
  sir_bolt12 :: "string option"
  sir_expires_at :: "int option"
  sir_paid_at :: "int option"
  sir_amount_received_msat :: "string option"
  sir_pay_index :: "int option"

record pay_response =
  pr_payment_hash :: string
  pr_payment_preimage :: "string option"
  pr_created_at :: int
  pr_amount_msat :: string
  pr_amount_sent_msat :: string
  pr_status :: string
  pr_destination :: "string option"

text \<open>
  The connection an \<open>Offers\<close> object is built on. The wallet module reads \<open>walletId\<close>,
  the connection modules read \<open>info.id\<close> and \<open>info.connectionId\<close>. The casts
  \<open>result as XResponse\<close> are not checked at run time: the response type that
  \<open>./types.js\<close> gives to each method is taken as the contract of the transport, so \<open>rpc\<close>
  has one typed answer per method, a rejection (\<open>Inl\<close>) or a result. \<open>rpc_duration\<close> is
  the number of seconds a call takes to settle.
\<close>

record connection =
  walletId :: string
  info_id :: string
  info_connectionId :: string
  rpc_listoffers :: "raw_error + offer_summary list"
  rpc_listinvoicerequests :: "raw_error + invoice_request_summary list"
  rpc_offer :: "params \<Rightarrow> raw_error + create_pay_offer_response"
  rpc_disableoffer :: "params \<Rightarrow> raw_error + unit"
  rpc_invoicerequest :: "params \<Rightarrow> raw_error + create_withdraw_offer_response"
  rpc_disableinvoicerequest :: "params \<Rightarrow> raw_error + unit"
  rpc_fetchinvoice :: "params \<Rightarrow> raw_error + string"
  rpc_sendinvoice :: "params \<Rightarrow> raw_error + send_invoice_response"
  rpc_pay :: "params \<Rightarrow> raw_error + pay_response"
  rpc_duration :: "rpc_request \<Rightarrow> nat"

text \<open>
  What an operation can change or read outside its arguments: the clock that
  \<open>nowSeconds()\<close> reads, the requests handed to \<open>connection.rpc\<close> so far, the errors
  pushed with \<open>connection.errors$.next\<close> so far, and the number of calls of
  \<open>createRandomHex()\<close> so far.
\<close>

record world =
  now :: int
  issued :: "rpc_request list"
  errors_pushed :: "app_error list"
  hex_drawn :: nat

text \<open>Handing a request to \<open>connection.rpc\<close> and awaiting it.\<close>

definition rpc :: "connection \<Rightarrow> rpc_request \<Rightarrow> world \<Rightarrow> world" where
  "rpc conn request w =
     w\<lparr>issued := issued w @ [request], now := now w + int (rpc_duration conn request)\<rparr>"

datatype offer_type = Pay | Withdraw

datatype denomination = Btc | Sats | Msats | Fiat string

datatype direction = Send | Receive

record decoded_bolt12 =
  dec_description :: "string option"
  dec_denomination :: denomination
  dec_amount :: "string option"
  dec_issuer :: "string option"

text \<open>\<open>Offer\<close>; a property that an object does not have is \<open>None\<close>.\<close>

record offer =
  o_id :: string
  o_bolt12 :: string
  o_type :: offer_type
  o_denomination :: denomination
  o_amount :: "string option"
  o_description :: "string option"
  o_walletId :: "string option"
  o_nodeId :: "string option"
  o_connectionId :: "string option"
  o_used :: bool
  o_singleUse :: bool
  o_active :: bool
  o_label :: "string option"
  o_expiry :: "int option"
  o_issuer :: "string option"
  o_quantityMax :: "int option"

text \<open>\<open>Invoice\<close> of the wallet module.\<close>

record invoice =
  i_id :: string
  i_hash :: string
  i_preimage :: "string option"
  i_nodeId :: "string option"
  i_type :: string
  i_direction :: direction
  i_amount :: string
  i_completedAt :: int
  i_expiresAt :: "int option"
  i_createdAt :: int
  i_fee :: "string option"
  i_status :: string
  i_request :: "string option"
  i_payIndex :: "int option"
  i_walletId :: string

text \<open>\<open>Payment\<close>, what \<open>sendInvoice\<close> of the connection modules returns.\<close>

record payment =
  p_id :: string
  p_hash :: string
  p_preimage :: "string option"
  p_type :: string
  p_direction :: direction
  p_nodeId :: string
  p_value :: string
  p_completedAt :: int
  p_expiresAt :: "int option"
  p_startedAt :: int
  p_fee :: "string option"
  p_status :: string
  p_invoice :: "string option"
  p_request :: "string option"
  p_payIndex :: "int option"
  p_connectionId :: "string option"

record create_pay_offer_options =
  cpo_amount :: "string option"
  cpo_description :: string
  cpo_issuer :: "string option"
  cpo_label :: string
  cpo_quantityMax :: "int option"
  cpo_expiry :: "int option"
  cpo_singleUse :: "bool option"

record create_withdraw_offer_options =
  cwo_amount :: string
  cwo_description :: string
  cwo_issuer :: "string option"
  cwo_label :: string
  cwo_expiry :: "int option"
  cwo_singleUse :: "bool option"

record fetch_invoice_options =
  fio_amount :: "string option"
  fio_offer :: string
  fio_quantity :: "int option"
  fio_timeout :: "int option"
  fio_payerNote :: "string option"

record send_invoice_options =
  sio_offer :: string
  sio_label :: string
  sio_amount :: "string option"
  sio_timeout :: "int option"
  sio_quantity :: "int option"

text \<open>
  The functions the offers modules import from files that are not among the sources, as
  parameters: the BOLT12 decoders, the status mapping (with and without the expiry
  argument), the msat formatters of the connection modules, the key that the error mapper
  gives to a raw error, and the random identifiers \<open>createRandomHex()\<close> returns, by call
  number.
\<close>

record env =
  decodeBolt12 :: "string \<Rightarrow> raw_error + decoded_bolt12"
  bolt12ToOffer :: "string \<Rightarrow> string option \<Rightarrow> raw_error + offer"
  invoiceStatusToPaymentStatus :: "string \<Rightarrow> int option \<Rightarrow> raw_error + string"
  invoiceStatusToPaymentStatus1 :: "string \<Rightarrow> raw_error + string"
  formatMsat :: "string option \<Rightarrow> raw_error + string"
  stripMsatSuffix :: "string option \<Rightarrow> raw_error + string"
  error_key :: "raw_error \<Rightarrow> string"
  createRandomHex :: "nat \<Rightarrow> string"

text \<open>
  Modelled from the spec: \<open>handleError\<close> of \<open>./error.js\<close>, "handleError(rawError, context,
  connectionId) -> ConnectionError: pure mapping, never throws". The connection id is
  placed in the detail, where \<open>streams.ts\<close> reads it; the connection module
  \<open>connections/coreln/offers.ts\<close> calls it with two arguments, which leaves the
  connection id \<open>undefined\<close>.
\<close>

definition handleError :: "env \<Rightarrow> raw_error \<Rightarrow> string \<Rightarrow> string option \<Rightarrow> app_error" where
  "handleError env error ctx cid =
     \<lparr>key = error_key env error,
      detail = \<lparr>op_context = ctx, connectionId = cid, cause = error\<rparr>\<rparr>"


section \<open>The wallet module (src/lib/wallets/coreln/offers.ts)\<close>

text \<open>A throw inside an expression ends its evaluation: the rest runs on a value only.\<close>

definition and_then :: "'e + 'a \<Rightarrow> ('a \<Rightarrow> 'e + 'b) \<Rightarrow> 'e + 'b" where
  "and_then r f = (case r of Inl e \<Rightarrow> Inl e | Inr v \<Rightarrow> f v)"

text \<open>
  The \<open>catch\<close> block that every operation of the wallet module ends with, for the
  context string \<open>ctx\<close> of the operation:
  \<^verbatim>\<open>const connectionError = handleError(error, context, this.connection.walletId)\<close>
  \<^verbatim>\<open>this.connection.errors$.next(connectionError)\<close>
  \<^verbatim>\<open>throw connectionError\<close>
  The argument is the outcome of the \<open>try\<close> block with the world it left.
\<close>

definition catch_wallet ::
  "connection \<Rightarrow> env \<Rightarrow> string \<Rightarrow> (raw_error + 'a) \<times> world \<Rightarrow> (app_error + 'a) \<times> world" where
  "catch_wallet conn env ctx outcome =
     (case outcome of
        (Inr v, w) \<Rightarrow> (Inr v, w)
      | (Inl error, w) \<Rightarrow>
          let connectionError = handleError env error ctx (Some (walletId conn))
          in (Inl connectionError, w\<lparr>errors_pushed := errors_pushed w @ [connectionError]\<rparr>))"

text \<open>
  In which order the promises of \<open>get\<close> settle: whether \<open>listoffers\<close> settles before
  \<open>listinvoicerequests\<close>, and the settling times of the decode calls of each list.
\<close>

record get_schedule =
  listoffers_first :: bool
  offers_settled_at :: "nat \<Rightarrow> nat"
  invoicerequests_settled_at :: "nat \<Rightarrow> nat"

definition formatted_pay :: "connection \<Rightarrow> offer_summary \<Rightarrow> decoded_bolt12 \<Rightarrow> offer" where
  "formatted_pay conn offer decoded =
     \<lparr>o_id = os_offer_id offer,
      o_bolt12 = os_bolt12 offer,
      o_type = Pay,
      o_denomination = dec_denomination decoded,
      o_amount = dec_amount decoded,
      o_description = dec_description decoded,
      o_walletId = Some (walletId conn),
      o_nodeId = None,
      o_connectionId = None,
      o_used = os_used offer,
      o_singleUse = os_single_use offer,
      o_active = os_active offer,
      o_label = os_label offer,
      o_expiry = None,
      o_issuer = dec_issuer decoded,
      o_quantityMax = None\<rparr>"

definition formatted_withdraw ::
  "connection \<Rightarrow> invoice_request_summary \<Rightarrow> decoded_bolt12 \<Rightarrow> offer" where
  "formatted_withdraw conn offer decoded =
     \<lparr>o_id = irs_invreq_id offer,
      o_bolt12 = irs_bolt12 offer,
      o_type = Withdraw,
      o_denomination = dec_denomination decoded,
      o_amount = dec_amount decoded,
      o_description = dec_description decoded,
      o_walletId = Some (walletId conn),
      o_nodeId = None,
      o_connectionId = None,
      o_used = irs_used offer,
      o_singleUse = irs_single_use offer,
      o_active = irs_active offer,
      o_label = irs_label offer,
      o_expiry = None,
      o_issuer = dec_issuer decoded,
      o_quantityMax = None\<rparr>"

definition get_body ::
  "connection \<Rightarrow> env \<Rightarrow> get_schedule \<Rightarrow> world \<Rightarrow> (raw_error + offer list) \<times> world" where
  "get_body conn env sched w =
     (let listoffers = \<lparr>rpc_method = ''listoffers'', rpc_params = NoParams\<rparr>;
          listinvoicerequests = \<lparr>rpc_method = ''listinvoicerequests'', rpc_params = NoParams\<rparr>;
          w' = w\<lparr>issued := issued w @ [listoffers, listinvoicerequests],
                 now := now w + int (max (rpc_duration conn listoffers)
                                         (rpc_duration conn listinvoicerequests))\<rparr>
      in case Promise_all2 (rpc_listoffers conn) (rpc_listinvoicerequests conn)
                (listoffers_first sched) of
           Inl e \<Rightarrow> (Inl e, w')
         | Inr (offers, invoicerequests) \<Rightarrow>
             (case Promise_all
                     (map (\<lambda>offer. and_then (decodeBolt12 env (os_bolt12 offer))
                                      (\<lambda>decoded. Inr (formatted_pay conn offer decoded)))
                          offers)
                     (offers_settled_at sched) of
                Inl e \<Rightarrow> (Inl e, w')
              | Inr formattedOffers \<Rightarrow>
                  (case Promise_all
                          (map (\<lambda>offer. and_then (decodeBolt12 env (irs_bolt12 offer))
                                           (\<lambda>decoded. Inr (formatted_withdraw conn offer decoded)))
                               invoicerequests)
                          (invoicerequests_settled_at sched) of
                     Inl e \<Rightarrow> (Inl e, w')
                   | Inr formattedInvoiceRequests \<Rightarrow>
                       (Inr (formattedOffers @ formattedInvoiceRequests), w'))))"

definition get ::
  "connection \<Rightarrow> env \<Rightarrow> get_schedule \<Rightarrow> world \<Rightarrow> (app_error + offer list) \<times> world" where
  "get conn env sched w = catch_wallet conn env ''get (offers)'' (get_body conn env sched w)"

text \<open>\<open>expiry && nowSeconds() + expiry\<close>: a falsy \<open>expiry\<close> (\<open>undefined\<close>, \<open>0\<close>) is the value.\<close>

definition absoluteExpiry :: "int option \<Rightarrow> int \<Rightarrow> int option" where
  "absoluteExpiry expiry nowSeconds =
     (case expiry of None \<Rightarrow> None | Some e \<Rightarrow> if e = 0 then Some e else Some (nowSeconds + e))"

text \<open>\<open>amount ? satsToMsats(amount) : 'any'\<close>\<close>

definition createPay_amount :: "string option \<Rightarrow> raw_error + string" where
  "createPay_amount amount =
     (case amount of
        None \<Rightarrow> Inr ''any''
      | Some a \<Rightarrow> if a = [] then Inr ''any'' else satsToMsats a)"

definition createPay_body ::
  "connection \<Rightarrow> create_pay_offer_options \<Rightarrow> world \<Rightarrow> (raw_error + offer) \<times> world" where
  "createPay_body conn options w =
     (let expiry' = absoluteExpiry (cpo_expiry options) (now w)
      in case createPay_amount (cpo_amount options) of
           Inl e \<Rightarrow> (Inl e, w)
         | Inr amount_param \<Rightarrow>
             let request =
                   \<lparr>rpc_method = ''offer'',
                    rpc_params = Named
                      [(''amount'', JString amount_param),
                       (''description'', JString (cpo_description options)),
                       (''issuer'', js_string (cpo_issuer options)),
                       (''label'', JString (cpo_label options)),
                       (''quantity_max'', js_number (cpo_quantityMax options)),
                       (''absolute_expiry'', js_number expiry'),
                       (''single_use'', js_bool (cpo_singleUse options))]\<rparr>;
                 w' = rpc conn request w
             in case rpc_offer conn (rpc_params request) of
                  Inl e \<Rightarrow> (Inl e, w')
                | Inr result \<Rightarrow>
                    (Inr \<lparr>o_id = cpr_offer_id result,
                          o_bolt12 = cpr_bolt12 result,
                          o_type = Pay,
                          o_denomination = Sats,
                          o_amount = cpo_amount options,
                          o_description = Some (cpo_description options),
                          o_walletId = Some (walletId conn),
                          o_nodeId = None,
                          o_connectionId = None,
                          o_used = cpr_used result,
                          o_singleUse = cpr_single_use result,
                          o_active = cpr_active result,
                          o_label = Some (cpo_label options),
                          o_expiry = expiry',
                          o_issuer = cpo_issuer options,
                          o_quantityMax = cpo_quantityMax options\<rparr>, w'))"

definition createPay ::
  "connection \<Rightarrow> env \<Rightarrow> create_pay_offer_options \<Rightarrow> world \<Rightarrow> (app_error + offer) \<times> world" where
  "createPay conn env options w =
     catch_wallet conn env ''createPay (offers)'' (createPay_body conn options w)"

definition disablePay_body ::
  "connection \<Rightarrow> string \<Rightarrow> world \<Rightarrow> (raw_error + unit) \<times> world" where
  "disablePay_body conn offerId w =
     (let request = \<lparr>rpc_method = ''disableoffer'',
                     rpc_params = Named [(''offer_id'', JString offerId)]\<rparr>
      in (rpc_disableoffer conn (rpc_params request), rpc conn request w))"

definition disablePay ::
  "connection \<Rightarrow> env \<Rightarrow> string \<Rightarrow> world \<Rightarrow> (app_error + unit) \<times> world" where
  "disablePay conn env offerId w =
     catch_wallet conn env ''disablePay (offers)'' (disablePay_body conn offerId w)"

definition createWithdraw_body ::
  "connection \<Rightarrow> create_withdraw_offer_options \<Rightarrow> world \<Rightarrow> (raw_error + offer) \<times> world" where
  "createWithdraw_body conn options w =
     (let expiry' = absoluteExpiry (cwo_expiry options) (now w)
      in case satsToMsats (cwo_amount options) of
           Inl e \<Rightarrow> (Inl e, w)
         | Inr amount_param \<Rightarrow>
             let request =
                   \<lparr>rpc_method = ''invoicerequest'',
                    rpc_params = Named
                      [(''amount'', JString amount_param),
                       (''description'', JString (cwo_description options)),
                       (''issuer'', js_string (cwo_issuer options)),
                       (''label'', JString (cwo_label options)),
                       (''absolute_expiry'', js_number expiry'),
                       (''single_use'', js_bool (cwo_singleUse options))]\<rparr>;
                 w' = rpc conn request w
             in case rpc_invoicerequest conn (rpc_params request) of
                  Inl e \<Rightarrow> (Inl e, w')
                | Inr result \<Rightarrow>
                    (Inr \<lparr>o_id = cwr_invreq_id result,
                          o_bolt12 = cwr_bolt12 result,
                          o_type = Withdraw,
                          o_denomination = Sats,
                          o_amount = Some (cwo_amount options),
                          o_description = Some (cwo_description options),
                          o_walletId = Some (walletId conn),
                          o_nodeId = None,
                          o_connectionId = None,
                          o_used = cwr_used result,
                          o_singleUse = cwr_single_use result,
                          o_active = cwr_active result,
                          o_label = Some (cwo_label options),
                          o_expiry = cwo_expiry options,
                          o_issuer = cwo_issuer options,
                          o_quantityMax = None\<rparr>, w'))"

definition createWithdraw ::
  "connection \<Rightarrow> env \<Rightarrow> create_withdraw_offer_options \<Rightarrow> world \<Rightarrow> (app_error + offer) \<times> world" where
  "createWithdraw conn env options w =
     catch_wallet conn env ''createWithdraw (offers)'' (createWithdraw_body conn options w)"

definition disableWithdraw_body ::
  "connection \<Rightarrow> string \<Rightarrow> world \<Rightarrow> (raw_error + unit) \<times> world" where
  "disableWithdraw_body conn invoiceRequestId w =
     (let request = \<lparr>rpc_method = ''disableinvoicerequest'',
                     rpc_params = Named [(''invreq_id'', JString invoiceRequestId)]\<rparr>
      in (rpc_disableinvoicerequest conn (rpc_params request), rpc conn request w))"

definition disableWithdraw ::
  "connection \<Rightarrow> env \<Rightarrow> string \<Rightarrow> world \<Rightarrow> (app_error + unit) \<times> world" where
  "disableWithdraw conn env invoiceRequestId w =
     catch_wallet conn env ''disableWithdraw (offers)''
       (disableWithdraw_body conn invoiceRequestId w)"

text \<open>
  \<open>amount && satsToMsats(amount)\<close>: a falsy \<open>amount\<close> (\<open>undefined\<close>, the empty string) is
  the value.
\<close>

definition amount_and_msats :: "string option \<Rightarrow> raw_error + string option" where
  "amount_and_msats amount =
     (case amount of
        None \<Rightarrow> Inr None
      | Some a \<Rightarrow> if a = [] then Inr (Some a) else and_then (satsToMsats a) (\<lambda>m. Inr (Some m)))"

definition fetchInvoice_body ::
  "connection \<Rightarrow> fetch_invoice_options \<Rightarrow> world \<Rightarrow> (raw_error + string) \<times> world" where
  "fetchInvoice_body conn options w =
     (case amount_and_msats (fio_amount options) of
        Inl e \<Rightarrow> (Inl e, w)
      | Inr amount_msat \<Rightarrow>
          let request =
                \<lparr>rpc_method = ''fetchinvoice'',
                 rpc_params = Named
                   [(''offer'', JString (fio_offer options)),
                    (''amount_msat'', js_string amount_msat),
                    (''quantity'', js_number (fio_quantity options)),
                    (''timeout'', js_number (fio_timeout options)),
                    (''payer_note'', js_string (fio_payerNote options))]\<rparr>
          in (rpc_fetchinvoice conn (rpc_params request), rpc conn request w))"

definition fetchInvoice ::
  "connection \<Rightarrow> env \<Rightarrow> fetch_invoice_options \<Rightarrow> world \<Rightarrow> (app_error + string) \<times> world" where
  "fetchInvoice conn env options w =
     catch_wallet conn env ''fetchInvoice (offers)'' (fetchInvoice_body conn options w)"

text \<open>\<open>const orderedParams = amountMsat ? [offer, label, amountMsat, timeout, quantity] : [offer, label, timeout, quantity]\<close>\<close>

definition orderedParams :: "send_invoice_options \<Rightarrow> string option \<Rightarrow> jsval list" where
  "orderedParams options amountMsat =
     (if truthy_string amountMsat
      then [JString (sio_offer options), JString (sio_label options), js_string amountMsat,
            js_number (sio_timeout options), js_number (sio_quantity options)]
      else [JString (sio_offer options), JString (sio_label options),
            js_number (sio_timeout options), js_number (sio_quantity options)])"

text \<open>\<open>paid_at ? paid_at : nowSeconds()\<close>\<close>

definition completedAt :: "int option \<Rightarrow> int \<Rightarrow> int" where
  "completedAt paid_at nowSeconds =
     (case paid_at of None \<Rightarrow> nowSeconds | Some t \<Rightarrow> if t = 0 then nowSeconds else t)"

definition sendInvoice_body ::
  "connection \<Rightarrow> env \<Rightarrow> send_invoice_options \<Rightarrow> world \<Rightarrow> (raw_error + invoice) \<times> world" where
  "sendInvoice_body conn env options w =
     (let createdAt = now w
      in case amount_and_msats (sio_amount options) of
           Inl e \<Rightarrow> (Inl e, w)
         | Inr amountMsat \<Rightarrow>
             let request = \<lparr>rpc_method = ''sendinvoice'',
                            rpc_params = Positional (orderedParams options amountMsat)\<rparr>;
                 w' = rpc conn request w
             in case rpc_sendinvoice conn (rpc_params request) of
                  Inl e \<Rightarrow> (Inl e, w')
                | Inr result \<Rightarrow>
                    (case and_then
                            (formatMsatString (or_else (sir_amount_received_msat result) amountMsat))
                            msatsToSats of
                       Inl e \<Rightarrow> (Inl e, w')
                     | Inr amount_sats \<Rightarrow>
                         (case invoiceStatusToPaymentStatus env (sir_status result)
                                 (sir_expires_at result) of
                            Inl e \<Rightarrow> (Inl e, w')
                          | Inr status \<Rightarrow>
                              (Inr \<lparr>i_id = sio_label options,
                                    i_hash = sir_payment_hash result,
                                    i_preimage = sir_payment_preimage result,
                                    i_nodeId = None,
                                    i_type = ''bolt12'',
                                    i_direction = Receive,
                                    i_amount = amount_sats,
                                    i_completedAt = completedAt (sir_paid_at result) (now w'),
                                    i_expiresAt = sir_expires_at result,
                                    i_createdAt = createdAt,
                                    i_fee = None,
                                    i_status = status,
                                    i_request = sir_bolt12 result,
                                    i_payIndex = sir_pay_index result,
                                    i_walletId = walletId conn\<rparr>, w'))))"

definition sendInvoice ::
  "connection \<Rightarrow> env \<Rightarrow> send_invoice_options \<Rightarrow> world \<Rightarrow> (app_error + invoice) \<times> world" where
  "sendInvoice conn env options w =
     catch_wallet conn env ''sendInvoice (offers)'' (sendInvoice_body conn env options w)"

text \<open>
  \<open>msatsToSats(Big(formatMsatString(amount_sent_msat)).minus(formatMsatString(amount_msat)).toString())\<close>
\<close>

definition payInvoice_fee :: "string \<Rightarrow> string \<Rightarrow> raw_error + string" where
  "payInvoice_fee amount_sent_msat amount_msat =
     and_then (formatMsatString (Some amount_sent_msat)) (\<lambda>sent_string.
     and_then (Big sent_string) (\<lambda>sent.
     and_then (formatMsatString (Some amount_msat)) (\<lambda>amount_string.
     and_then (Big amount_string) (\<lambda>amount.
       msatsToSats (Big_toString (sent - amount))))))"

definition payInvoice_body ::
  "connection \<Rightarrow> env \<Rightarrow> string \<Rightarrow> world \<Rightarrow> (raw_error + invoice) \<times> world" where
  "payInvoice_body conn env bolt12 w =
     (let request = \<lparr>rpc_method = ''pay'', rpc_params = Positional [JString bolt12]\<rparr>;
          w' = rpc conn request w
      in case rpc_pay conn (rpc_params request) of
           Inl e \<Rightarrow> (Inl e, w')
         | Inr result \<Rightarrow>
             let id = createRandomHex env (hex_drawn w');
                 w'' = w'\<lparr>hex_drawn := Suc (hex_drawn w')\<rparr>
             in case and_then (formatMsatString (Some (pr_amount_msat result))) msatsToSats of
                  Inl e \<Rightarrow> (Inl e, w'')
                | Inr amount_sats \<Rightarrow>
                    (case payInvoice_fee (pr_amount_sent_msat result) (pr_amount_msat result) of
                       Inl e \<Rightarrow> (Inl e, w'')
                     | Inr fee \<Rightarrow>
                         (Inr \<lparr>i_id = id,
                               i_hash = pr_payment_hash result,
                               i_preimage = pr_payment_preimage result,
                               i_nodeId = pr_destination result,
                               i_type = ''bolt12'',
                               i_direction = Send,
                               i_amount = amount_sats,
                               i_completedAt = now w'',
                               i_expiresAt = None,
                               i_createdAt = pr_created_at result,
                               i_fee = Some fee,
                               i_status = pr_status result,
                               i_request = Some bolt12,
                               i_payIndex = None,
                               i_walletId = walletId conn\<rparr>, w'')))"

text \<open>The \<open>catch\<close> block of \<open>payInvoice\<close> has \<open>const context = 'sendInvoice (offers)'\<close>.\<close>

definition payInvoice ::
  "connection \<Rightarrow> env \<Rightarrow> string \<Rightarrow> world \<Rightarrow> (app_error + invoice) \<times> world" where
  "payInvoice conn env bolt12 w =
     catch_wallet conn env ''sendInvoice (offers)'' (payInvoice_body conn env bolt12 w)"


section \<open>The connection module (src/lib/connections/coreln/offers.ts)\<close>

text \<open>
  The \<open>catch\<close> block of every operation of this module is
  \<^verbatim>\<open>throw handleError(error as CoreLnError, context)\<close>
\<close>

definition catch_conn ::
  "env \<Rightarrow> string \<Rightarrow> (raw_error + 'a) \<times> world \<Rightarrow> (app_error + 'a) \<times> world" where
  "catch_conn env ctx outcome =
     (case outcome of
        (Inr v, w) \<Rightarrow> (Inr v, w)
      | (Inl error, w) \<Rightarrow> (Inl (handleError env error ctx None), w))"

text \<open>
  What a caller of \<open>get\<close> can be rejected with: the error made by the \<open>catch\<close> block, or
  a raw error that did not pass through it.
\<close>

datatype rejection = ConnectionError app_error | Uncaught raw_error

text \<open>
  \<open>{...formattedOffer, active, single_use, used, bolt12, label}\<close>: the offer made by
  \<open>bolt12ToOffer\<close> with four properties replaced, and the property \<open>single_use\<close> added.
\<close>

record listed_offer =
  lo_offer :: offer
  lo_single_use :: bool

record conn_get_schedule =
  cg_listoffers_first :: bool
  cg_settled_at :: "nat \<Rightarrow> nat"

text \<open>
  The function mapped over \<open>[...offers, ...invoicerequests]\<close>. An entry of \<open>listoffers\<close>
  has no \<open>invreq_id\<close> and an entry of \<open>listinvoicerequests\<close> has no \<open>offer_id\<close>, so
  \<open>offer_id || invreq_id\<close> is the id of the entry, or \<open>undefined\<close> for an offer with an empty
  \<open>offer_id\<close>.
\<close>

definition conn_format ::
  "env \<Rightarrow> offer_summary + invoice_request_summary \<Rightarrow> raw_error + listed_offer" where
  "conn_format env offer =
     (case offer of
        Inl s \<Rightarrow>
          and_then (bolt12ToOffer env (os_bolt12 s)
                      (if os_offer_id s = [] then None else Some (os_offer_id s)))
            (\<lambda>formattedOffer.
               Inr \<lparr>lo_offer = formattedOffer\<lparr>o_active := os_active s, o_used := os_used s,
                                               o_bolt12 := os_bolt12 s, o_label := os_label s\<rparr>,
                    lo_single_use = os_single_use s\<rparr>)
      | Inr s \<Rightarrow>
          and_then (bolt12ToOffer env (irs_bolt12 s) (Some (irs_invreq_id s)))
            (\<lambda>formattedOffer.
               Inr \<lparr>lo_offer = formattedOffer\<lparr>o_active := irs_active s, o_used := irs_used s,
                                               o_bolt12 := irs_bolt12 s, o_label := irs_label s\<rparr>,
                    lo_single_use = irs_single_use s\<rparr>))"

text \<open>
  \<open>get\<close> ends its \<open>try\<close> block with \<open>return Promise.all(formatted)\<close>, without \<open>await\<close>:
  the block is left before the promise settles, and a rejection of a decode call reaches
  the caller as it is. A rejection of a list call is awaited inside the block and caught.
\<close>

definition conn_get ::
  "connection \<Rightarrow> env \<Rightarrow> conn_get_schedule \<Rightarrow> world \<Rightarrow> (rejection + listed_offer list) \<times> world" where
  "conn_get conn env sched w =
     (let listoffers = \<lparr>rpc_method = ''listoffers'', rpc_params = NoParams\<rparr>;
          listinvoicerequests = \<lparr>rpc_method = ''listinvoicerequests'', rpc_params = NoParams\<rparr>;
          w' = w\<lparr>issued := issued w @ [listoffers, listinvoicerequests],
                 now := now w + int (max (rpc_duration conn listoffers)
                                         (rpc_duration conn listinvoicerequests))\<rparr>
      in case Promise_all2 (rpc_listoffers conn) (rpc_listinvoicerequests conn)
                (cg_listoffers_first sched) of
           Inl e \<Rightarrow> (Inl (ConnectionError (handleError env e ''get (offers)'' None)), w')
         | Inr (offers, invoicerequests) \<Rightarrow>
             (case Promise_all (map (conn_format env) (map Inl offers @ map Inr invoicerequests))
                     (cg_settled_at sched) of
                Inl e \<Rightarrow> (Inl (Uncaught e), w')
              | Inr formatted \<Rightarrow> (Inr formatted, w')))"

definition conn_createPay_body ::
  "connection \<Rightarrow> create_pay_offer_options \<Rightarrow> world \<Rightarrow> (raw_error + offer) \<times> world" where
  "conn_createPay_body conn options w =
     (let request =
            \<lparr>rpc_method = ''offer'',
             rpc_params = Named
               [(''amount'', js_string (cpo_amount options)),
                (''description'', JString (cpo_description options)),
                (''issuer'', js_string (cpo_issuer options)),
                (''label'', JString (cpo_label options)),
                (''quantity_max'', js_number (cpo_quantityMax options)),
                (''absolute_expiry'', js_number (cpo_expiry options)),
                (''single_use'', js_bool (cpo_singleUse options))]\<rparr>;
          w' = rpc conn request w
      in case rpc_offer conn (rpc_params request) of
           Inl e \<Rightarrow> (Inl e, w')
         | Inr result \<Rightarrow>
             (Inr \<lparr>o_id = cpr_offer_id result,
                   o_bolt12 = cpr_bolt12 result,
                   o_type = Pay,
                   o_denomination = Msats,
                   o_amount = cpo_amount options,
                   o_description = Some (cpo_description options),
                   o_walletId = None,
                   o_nodeId = Some (info_id conn),
                   o_connectionId = None,
                   o_used = cpr_used result,
                   o_singleUse = cpr_single_use result,
                   o_active = cpr_active result,
                   o_label = Some (cpo_label options),
                   o_expiry = cpo_expiry options,
                   o_issuer = cpo_issuer options,
                   o_quantityMax = cpo_quantityMax options\<rparr>, w'))"

definition conn_createPay ::
  "connection \<Rightarrow> env \<Rightarrow> create_pay_offer_options \<Rightarrow> world \<Rightarrow> (app_error + offer) \<times> world" where
  "conn_createPay conn env options w =
     catch_conn env ''createPay (offers)'' (conn_createPay_body conn options w)"

definition conn_disablePay ::
  "connection \<Rightarrow> env \<Rightarrow> string \<Rightarrow> world \<Rightarrow> (app_error + unit) \<times> world" where
  "conn_disablePay conn env offerId w =
     catch_conn env ''disablePay (offers)'' (disablePay_body conn offerId w)"

definition conn_createWithdraw_body ::
  "connection \<Rightarrow> create_withdraw_offer_options \<Rightarrow> world \<Rightarrow> (raw_error + offer) \<times> world" where
  "conn_createWithdraw_body conn options w =
     (let request =
            \<lparr>rpc_method = ''invoicerequest'',
             rpc_params = Named
               [(''amount'', JString (cwo_amount options)),
                (''description'', JString (cwo_description options)),
                (''issuer'', js_string (cwo_issuer options)),
                (''label'', JString (cwo_label options)),
                (''absolute_expiry'', js_number (cwo_expiry options)),
                (''single_use'', js_bool (cwo_singleUse options))]\<rparr>;
          w' = rpc conn request w
      in case rpc_invoicerequest conn (rpc_params request) of
           Inl e \<Rightarrow> (Inl e, w')
         | Inr result \<Rightarrow>
             (Inr \<lparr>o_id = cwr_invreq_id result,
                   o_bolt12 = cwr_bolt12 result,
                   o_type = Withdraw,
                   o_denomination = Msats,
                   o_amount = Some (cwo_amount options),
                   o_description = Some (cwo_description options),
                   o_walletId = None,
                   o_nodeId = Some (info_id conn),
                   o_connectionId = None,
                   o_used = cwr_used result,
                   o_singleUse = cwr_single_use result,
                   o_active = cwr_active result,
                   o_label = Some (cwo_label options),
                   o_expiry = cwo_expiry options,
                   o_issuer = cwo_issuer options,
                   o_quantityMax = None\<rparr>, w'))"

definition conn_createWithdraw ::
  "connection \<Rightarrow> env \<Rightarrow> create_withdraw_offer_options \<Rightarrow> world \<Rightarrow> (app_error + offer) \<times> world" where
  "conn_createWithdraw conn env options w =
     catch_conn env ''createWithdraw (offers)'' (conn_createWithdraw_body conn options w)"

definition conn_disableWithdraw ::
  "connection \<Rightarrow> env \<Rightarrow> string \<Rightarrow> world \<Rightarrow> (app_error + unit) \<times> world" where
  "conn_disableWithdraw conn env invoiceRequestId w =
     catch_conn env ''disableWithdraw (offers)'' (disableWithdraw_body conn invoiceRequestId w)"

definition conn_fetchInvoice_body ::
  "connection \<Rightarrow> fetch_invoice_options \<Rightarrow> world \<Rightarrow> (raw_error + string) \<times> world" where
  "conn_fetchInvoice_body conn options w =
     (let request =
            \<lparr>rpc_method = ''fetchinvoice'',
             rpc_params = Named
               [(''offer'', JString (fio_offer options)),
                (''amount_msat'', js_string (fio_amount options)),
                (''quantity'', js_number (fio_quantity options)),
                (''timeout'', js_number (fio_timeout options)),
                (''payer_note'', js_string (fio_payerNote options))]\<rparr>
      in (rpc_fetchinvoice conn (rpc_params request), rpc conn request w))"

definition conn_fetchInvoice ::
  "connection \<Rightarrow> env \<Rightarrow> fetch_invoice_options \<Rightarrow> world \<Rightarrow> (app_error + string) \<times> world" where
  "conn_fetchInvoice conn env options w =
     catch_conn env ''fetchInvoice (offers)'' (conn_fetchInvoice_body conn options w)"

text \<open>
  \<open>sendInvoice\<close> of this module builds \<open>orderedParams\<close> from \<open>amount\<close> itself:
  \<open>amount ? [offer, label, amount, timeout, quantity] : [offer, label, timeout, quantity]\<close>.
\<close>

definition conn_sendInvoice_body ::
  "connection \<Rightarrow> env \<Rightarrow> send_invoice_options \<Rightarrow> world \<Rightarrow> (raw_error + payment) \<times> world" where
  "conn_sendInvoice_body conn env options w =
     (let createdAt = now w;
          request = \<lparr>rpc_method = ''sendinvoice'',
                     rpc_params = Positional (orderedParams options (sio_amount options))\<rparr>;
          w' = rpc conn request w
      in case rpc_sendinvoice conn (rpc_params request) of
           Inl e \<Rightarrow> (Inl e, w')
         | Inr result \<Rightarrow>
             (case formatMsat env (or_else (sir_amount_received_msat result) (sio_amount options)) of
                Inl e \<Rightarrow> (Inl e, w')
              | Inr val \<Rightarrow>
                  (case invoiceStatusToPaymentStatus1 env (sir_status result) of
                     Inl e \<Rightarrow> (Inl e, w')
                   | Inr status \<Rightarrow>
                       (Inr \<lparr>p_id = sio_label options,
                             p_hash = sir_payment_hash result,
                             p_preimage = sir_payment_preimage result,
                             p_type = ''bolt12'',
                             p_direction = Receive,
                             p_nodeId = info_id conn,
                             p_value = val,
                             p_completedAt = completedAt (sir_paid_at result) (now w'),
                             p_expiresAt = sir_expires_at result,
                             p_startedAt = createdAt,
                             p_fee = None,
                             p_status = status,
                             p_invoice = sir_bolt12 result,
                             p_request = None,
                             p_payIndex = sir_pay_index result,
                             p_connectionId = None\<rparr>, w'))))"

definition conn_sendInvoice ::
  "connection \<Rightarrow> env \<Rightarrow> send_invoice_options \<Rightarrow> world \<Rightarrow> (app_error + payment) \<times> world" where
  "conn_sendInvoice conn env options w =
     catch_conn env ''sendInvoice (offers)'' (conn_sendInvoice_body conn env options w)"

section \<open>The connection module with error channel (src/unnamed/part_000)\<close>

text \<open>
  The \<open>catch\<close> block of every operation of this module maps the error with
  \<open>this.connection.info.connectionId\<close>, pushes it on \<open>errors$\<close> and throws it.
\<close>

definition catch_part000 ::
  "connection \<Rightarrow> env \<Rightarrow> string \<Rightarrow> (raw_error + 'a) \<times> world \<Rightarrow> (app_error + 'a) \<times> world" where
  "catch_part000 conn env ctx outcome =
     (case outcome of
        (Inr v, w) \<Rightarrow> (Inr v, w)
      | (Inl error, w) \<Rightarrow>
          let connectionError = handleError env error ctx (Some (info_connectionId conn))
          in (Inl connectionError, w\<lparr>errors_pushed := errors_pushed w @ [connectionError]\<rparr>))"

text \<open>
  \<open>createPay\<close>: the \<open>try\<close> block is that of the connection module, and the offer returned
  has \<open>connectionId: this.connection.info.connectionId\<close> in addition.
\<close>

definition part000_createPay_body ::
  "connection \<Rightarrow> create_pay_offer_options \<Rightarrow> world \<Rightarrow> (raw_error + offer) \<times> world" where
  "part000_createPay_body conn options w =
     (case conn_createPay_body conn options w of
        (Inl e, w') \<Rightarrow> (Inl e, w')
      | (Inr made, w') \<Rightarrow> (Inr (made\<lparr>o_connectionId := Some (info_connectionId conn)\<rparr>), w'))"

definition part000_createPay ::
  "connection \<Rightarrow> env \<Rightarrow> create_pay_offer_options \<Rightarrow> world \<Rightarrow> (app_error + offer) \<times> world" where
  "part000_createPay conn env options w =
     catch_part000 conn env ''createPay (offers)'' (part000_createPay_body conn options w)"

definition part000_sendInvoice_body ::
  "connection \<Rightarrow> env \<Rightarrow> send_invoice_options \<Rightarrow> world \<Rightarrow> (raw_error + payment) \<times> world" where
  "part000_sendInvoice_body conn env options w =
     (let createdAt = now w;
          request = \<lparr>rpc_method = ''sendinvoice'',
                     rpc_params = Positional (orderedParams options (sio_amount options))\<rparr>;
          w' = rpc conn request w
      in case rpc_sendinvoice conn (rpc_params request) of
           Inl e \<Rightarrow> (Inl e, w')
         | Inr result \<Rightarrow>
             (case stripMsatSuffix env
                     (or_else (sir_amount_received_msat result) (sio_amount options)) of
                Inl e \<Rightarrow> (Inl e, w')
              | Inr val \<Rightarrow>
                  (case invoiceStatusToPaymentStatus1 env (sir_status result) of
                     Inl e \<Rightarrow> (Inl e, w')
                   | Inr status \<Rightarrow>
                       (Inr \<lparr>p_id = sio_label options,
                             p_hash = sir_payment_hash result,
                             p_preimage = sir_payment_preimage result,
                             p_type = ''bolt12'',
                             p_direction = Receive,
                             p_nodeId = info_id conn,
                             p_value = val,
                             p_completedAt = completedAt (sir_paid_at result) (now w'),
                             p_expiresAt = sir_expires_at result,
                             p_startedAt = createdAt,
                             p_fee = None,
                             p_status = status,
                             p_invoice = None,
                             p_request = sir_bolt12 result,
                             p_payIndex = sir_pay_index result,
                             p_connectionId = Some (info_connectionId conn)\<rparr>, w'))))"

definition part000_sendInvoice ::
  "connection \<Rightarrow> env \<Rightarrow> send_invoice_options \<Rightarrow> world \<Rightarrow> (app_error + payment) \<times> world" where
  "part000_sendInvoice conn env options w =
     catch_part000 conn env ''sendInvoice (offers)'' (part000_sendInvoice_body conn env options w)"


section \<open>The operations as one interface, and sample data\<close>

text \<open>
  A call of one of the eight public operations of the wallet module (\<open>OffersInterface\<close>)
  with its arguments, and what it resolves to.
\<close>

datatype operation =
    Get get_schedule
  | CreatePay create_pay_offer_options
  | DisablePay string
  | CreateWithdraw create_withdraw_offer_options
  | DisableWithdraw string
  | FetchInvoice fetch_invoice_options
  | SendInvoice send_invoice_options
  | PayInvoice string

datatype resolved =
    Offers "offer list"
  | AnOffer offer
  | Disabled
  | Bolt12Invoice string
  | AnInvoice invoice

definition perform ::
  "connection \<Rightarrow> env \<Rightarrow> operation \<Rightarrow> world \<Rightarrow> (app_error + resolved) \<times> world" where
  "perform conn env call w =
     (case call of
        Get sched \<Rightarrow> apfst (map_sum id Offers) (get conn env sched w)
      | CreatePay options \<Rightarrow> apfst (map_sum id AnOffer) (createPay conn env options w)
      | DisablePay offerId \<Rightarrow> apfst (map_sum id (\<lambda>_. Disabled)) (disablePay conn env offerId w)
      | CreateWithdraw options \<Rightarrow> apfst (map_sum id AnOffer) (createWithdraw conn env options w)
      | DisableWithdraw invoiceRequestId \<Rightarrow>
          apfst (map_sum id (\<lambda>_. Disabled)) (disableWithdraw conn env invoiceRequestId w)
      | FetchInvoice options \<Rightarrow> apfst (map_sum id Bolt12Invoice) (fetchInvoice conn env options w)
      | SendInvoice options \<Rightarrow> apfst (map_sum id AnInvoice) (sendInvoice conn env options w)
      | PayInvoice bolt12 \<Rightarrow> apfst (map_sum id AnInvoice) (payInvoice conn env bolt12 w))"

text \<open>
  The name of an operation, and the context string that an operation ought to fail with
  according to the pattern of the module: its own name, followed by \<open>(offers)\<close>.
\<close>

definition operation_name :: "operation \<Rightarrow> string" where
  "operation_name call =
     (case call of
        Get sched \<Rightarrow> ''get''
      | CreatePay options \<Rightarrow> ''createPay''
      | DisablePay offerId \<Rightarrow> ''disablePay''
      | CreateWithdraw options \<Rightarrow> ''createWithdraw''
      | DisableWithdraw invoiceRequestId \<Rightarrow> ''disableWithdraw''
      | FetchInvoice options \<Rightarrow> ''fetchInvoice''
      | SendInvoice options \<Rightarrow> ''sendInvoice''
      | PayInvoice bolt12 \<Rightarrow> ''payInvoice'')"

definition own_context :: "operation \<Rightarrow> string" where
  "own_context call = operation_name call @ '' (offers)''"

text \<open>The same for the seven operations of the connection module.\<close>

datatype conn_operation =
    ConnGet conn_get_schedule
  | ConnCreatePay create_pay_offer_options
  | ConnDisablePay string
  | ConnCreateWithdraw create_withdraw_offer_options
  | ConnDisableWithdraw string
  | ConnFetchInvoice fetch_invoice_options
  | ConnSendInvoice send_invoice_options

datatype conn_resolved =
    ListedOffers "listed_offer list"
  | ConnOffer offer
  | ConnDisabled
  | ConnBolt12Invoice string
  | ConnPayment payment

definition conn_perform ::
  "connection \<Rightarrow> env \<Rightarrow> conn_operation \<Rightarrow> world \<Rightarrow> (rejection + conn_resolved) \<times> world" where
  "conn_perform conn env call w =
     (case call of
        ConnGet sched \<Rightarrow> apfst (map_sum id ListedOffers) (conn_get conn env sched w)
      | ConnCreatePay options \<Rightarrow>
          apfst (map_sum ConnectionError ConnOffer) (conn_createPay conn env options w)
      | ConnDisablePay offerId \<Rightarrow>
          apfst (map_sum ConnectionError (\<lambda>_. ConnDisabled)) (conn_disablePay conn env offerId w)
      | ConnCreateWithdraw options \<Rightarrow>
          apfst (map_sum ConnectionError ConnOffer) (conn_createWithdraw conn env options w)
      | ConnDisableWithdraw invoiceRequestId \<Rightarrow>
          apfst (map_sum ConnectionError (\<lambda>_. ConnDisabled))
            (conn_disableWithdraw conn env invoiceRequestId w)
      | ConnFetchInvoice options \<Rightarrow>
          apfst (map_sum ConnectionError ConnBolt12Invoice) (conn_fetchInvoice conn env options w)
      | ConnSendInvoice options \<Rightarrow>
          apfst (map_sum ConnectionError ConnPayment) (conn_sendInvoice conn env options w))"

text \<open>The value of the parameter \<open>name\<close> of a request with named parameters.\<close>

definition named_param :: "string \<Rightarrow> rpc_request \<Rightarrow> jsval option" where
  "named_param name request =
     (case rpc_params request of Named ps \<Rightarrow> map_of ps name | _ \<Rightarrow> None)"

text \<open>Sample collaborators, a node that answers every call, and a node that rejects every call.\<close>

definition sample_decoded :: decoded_bolt12 where
  "sample_decoded =
     \<lparr>dec_description = Some ''coffee'', dec_denomination = Sats,
      dec_amount = Some ''7'', dec_issuer = None\<rparr>"

definition sample_offer :: "string \<Rightarrow> string option \<Rightarrow> offer" where
  "sample_offer bolt12 ident =
     \<lparr>o_id = (case ident of None \<Rightarrow> [] | Some i \<Rightarrow> i), o_bolt12 = bolt12,
      o_type = (if prefix ''lnr'' bolt12 then Withdraw else Pay),
      o_denomination = Msats, o_amount = Some ''7000'', o_description = Some ''coffee'',
      o_walletId = None, o_nodeId = None, o_connectionId = None, o_used = False,
      o_singleUse = False, o_active = True, o_label = None, o_expiry = None,
      o_issuer = None, o_quantityMax = None\<rparr>"

definition sample_env :: env where
  "sample_env =
     \<lparr>decodeBolt12 = (\<lambda>bolt12. if bolt12 = [] then Inl (DecodeError bolt12) else Inr sample_decoded),
      bolt12ToOffer = (\<lambda>bolt12 ident.
         if bolt12 = [] then Inl (DecodeError bolt12) else Inr (sample_offer bolt12 ident)),
      invoiceStatusToPaymentStatus = (\<lambda>status expires_at.
         Inr (if status = ''paid'' then ''complete'' else ''pending'')),
      invoiceStatusToPaymentStatus1 = (\<lambda>status.
         Inr (if status = ''paid'' then ''complete'' else ''pending'')),
      formatMsat = formatMsatString,
      stripMsatSuffix = formatMsatString,
      error_key = (\<lambda>error. ''connection_error''),
      createRandomHex = (\<lambda>n. ''5ca1ab1e'')\<rparr>"

definition sample_offers :: "offer_summary list" where
  "sample_offers =
     [\<lparr>os_offer_id = ''o1'', os_bolt12 = ''lno1pay'', os_active = True,
       os_single_use = False, os_used = False, os_label = Some ''tips''\<rparr>]"

definition sample_invoicerequests :: "invoice_request_summary list" where
  "sample_invoicerequests =
     [\<lparr>irs_invreq_id = ''w1'', irs_bolt12 = ''lnr1withdraw'', irs_active = True,
       irs_single_use = True, irs_used = False, irs_label = None\<rparr>]"

text \<open>What \<open>get\<close> of the connection module returns for the two sample lists.\<close>

definition sample_listed :: "listed_offer list" where
  "sample_listed =
     [\<lparr>lo_offer = (sample_offer ''lno1pay'' (Some ''o1''))\<lparr>o_label := Some ''tips''\<rparr>,
       lo_single_use = False\<rparr>,
      \<lparr>lo_offer = sample_offer ''lnr1withdraw'' (Some ''w1''), lo_single_use = True\<rparr>]"

definition sample_connection :: connection where
  "sample_connection =
     \<lparr>walletId = ''wallet-1'',
      info_id = ''node-1'',
      info_connectionId = ''conn-1'',
      rpc_listoffers = Inr sample_offers,
      rpc_listinvoicerequests = Inr sample_invoicerequests,
      rpc_offer = (\<lambda>ps. Inr
        \<lparr>cpr_offer_id = ''o2'', cpr_bolt12 = ''lno1new'', cpr_used = False,
         cpr_single_use = False, cpr_active = True\<rparr>),
      rpc_disableoffer = (\<lambda>ps. Inr ()),
      rpc_invoicerequest = (\<lambda>ps. Inr
        \<lparr>cwr_invreq_id = ''w2'', cwr_bolt12 = ''lnr1new'', cwr_used = False,
         cwr_single_use = True, cwr_active = True\<rparr>),
      rpc_disableinvoicerequest = (\<lambda>ps. Inr ()),
      rpc_fetchinvoice = (\<lambda>ps. Inr ''lni1invoice''),
      rpc_sendinvoice = (\<lambda>ps. Inr
        \<lparr>sir_payment_hash = ''00ff'', sir_payment_preimage = None, sir_status = ''paid'',
         sir_bolt12 = Some ''lni1invoice'', sir_expires_at = Some 1700000600,
         sir_paid_at = None, sir_amount_received_msat = Some ''5000000msat'',
         sir_pay_index = Some 3\<rparr>),
      rpc_pay = (\<lambda>ps. Inr
        \<lparr>pr_payment_hash = ''00ff'', pr_payment_preimage = Some ''11aa'',
         pr_created_at = 1700000000, pr_amount_msat = ''100000'',
         pr_amount_sent_msat = ''101000'', pr_status = ''complete'',
         pr_destination = Some ''02abc''\<rparr>),
      rpc_duration = (\<lambda>request. 2)\<rparr>"

definition sample_rejection :: raw_error where
  "sample_rejection = RpcError (- 1) ''unknown error''"

definition rejecting_connection :: connection where
  "rejecting_connection =
     sample_connection
       \<lparr>rpc_listoffers := Inl sample_rejection,
        rpc_listinvoicerequests := Inl sample_rejection,
        rpc_offer := (\<lambda>ps. Inl sample_rejection),
        rpc_disableoffer := (\<lambda>ps. Inl sample_rejection),
        rpc_invoicerequest := (\<lambda>ps. Inl sample_rejection),
        rpc_disableinvoicerequest := (\<lambda>ps. Inl sample_rejection),
        rpc_fetchinvoice := (\<lambda>ps. Inl sample_rejection),
        rpc_sendinvoice := (\<lambda>ps. Inl sample_rejection),
        rpc_pay := (\<lambda>ps. Inl sample_rejection)\<rparr>"

definition sample_world :: world where
  "sample_world = \<lparr>now = 1700000000, issued = [], errors_pushed = [], hex_drawn = 0\<rparr>"

definition sample_schedule :: get_schedule where
  "sample_schedule =
     \<lparr>listoffers_first = False, offers_settled_at = (\<lambda>i. 5 - i),
      invoicerequests_settled_at = (\<lambda>i. i)\<rparr>"

definition sample_conn_schedule :: conn_get_schedule where
  "sample_conn_schedule = \<lparr>cg_listoffers_first = False, cg_settled_at = (\<lambda>i. 5 - i)\<rparr>"

definition sample_pay_options :: create_pay_offer_options where
  "sample_pay_options =
     \<lparr>cpo_amount = Some ''7'', cpo_description = ''coffee'', cpo_issuer = None,
      cpo_label = ''tips'', cpo_quantityMax = None, cpo_expiry = Some 3600,
      cpo_singleUse = Some False\<rparr>"

definition sample_withdraw_options :: create_withdraw_offer_options where
  "sample_withdraw_options =
     \<lparr>cwo_amount = ''7'', cwo_description = ''refund'', cwo_issuer = None,
      cwo_label = ''refund-1'', cwo_expiry = Some 3600, cwo_singleUse = Some True\<rparr>"

definition sample_send_options :: send_invoice_options where
  "sample_send_options =
     \<lparr>sio_offer = ''lnr1withdraw'', sio_label = ''label-1'', sio_amount = Some ''5000'',
      sio_timeout = Some 30, sio_quantity = Some 1\<rparr>"

text \<open>
  What the three \<open>sendInvoice\<close> return for \<open>sample_send_options\<close> on the sample node at
  \<open>sample_world\<close>, and what \<open>payInvoice\<close> returns there.
\<close>

definition sample_received :: invoice where
  "sample_received =
     \<lparr>i_id = ''label-1'', i_hash = ''00ff'', i_preimage = None, i_nodeId = None,
      i_type = ''bolt12'', i_direction = Receive, i_amount = ''5000'',
      i_completedAt = 1700000002, i_expiresAt = Some 1700000600, i_createdAt = 1700000000,
      i_fee = None, i_status = ''complete'', i_request = Some ''lni1invoice'',
      i_payIndex = Some 3, i_walletId = ''wallet-1''\<rparr>"

definition sample_conn_received :: payment where
  "sample_conn_received =
     \<lparr>p_id = ''label-1'', p_hash = ''00ff'', p_preimage = None, p_type = ''bolt12'',
      p_direction = Receive, p_nodeId = ''node-1'', p_value = ''5000000'',
      p_completedAt = 1700000002, p_expiresAt = Some 1700000600, p_startedAt = 1700000000,
      p_fee = None, p_status = ''complete'', p_invoice = Some ''lni1invoice'',
      p_request = None, p_payIndex = Some 3, p_connectionId = None\<rparr>"

definition sample_part000_received :: payment where
  "sample_part000_received =
     \<lparr>p_id = ''label-1'', p_hash = ''00ff'', p_preimage = None, p_type = ''bolt12'',
      p_direction = Receive, p_nodeId = ''node-1'', p_value = ''5000000'',
      p_completedAt = 1700000002, p_expiresAt = Some 1700000600, p_startedAt = 1700000000,
      p_fee = None, p_status = ''complete'', p_invoice = None,
      p_request = Some ''lni1invoice'', p_payIndex = Some 3, p_connectionId = Some ''conn-1''\<rparr>"

definition sample_paid :: invoice where
  "sample_paid =
     \<lparr>i_id = ''5ca1ab1e'', i_hash = ''00ff'', i_preimage = Some ''11aa'',
      i_nodeId = Some ''02abc'', i_type = ''bolt12'', i_direction = Send, i_amount = ''100'',
      i_completedAt = 1700000002, i_expiresAt = None, i_createdAt = 1700000000,
      i_fee = Some ''1'', i_status = ''complete'', i_request = Some ''lni1invoice'',
      i_payIndex = None, i_walletId = ''wallet-1''\<rparr>"

text \<open>
  The number of millisatoshis that an amount field of an RPC response denotes: the field
  without its unit suffix, read as a number.
\<close>

definition msat_value :: "string \<Rightarrow> raw_error + int" where
  "msat_value raw = and_then (formatMsatString (Some raw)) Big"

text \<open>
  The \<open>try\<close> block of each operation of the wallet module, and the context string in the
  \<open>catch\<close> block of each operation (\<open>const context = ...\<close>), as the source has them.
\<close>

definition perform_body ::
  "connection \<Rightarrow> env \<Rightarrow> operation \<Rightarrow> world \<Rightarrow> (raw_error + resolved) \<times> world" where
  "perform_body conn env call w =
     (case call of
        Get sched \<Rightarrow> apfst (map_sum id Offers) (get_body conn env sched w)
      | CreatePay options \<Rightarrow> apfst (map_sum id AnOffer) (createPay_body conn options w)
      | DisablePay offerId \<Rightarrow> apfst (map_sum id (\<lambda>_. Disabled)) (disablePay_body conn offerId w)
      | CreateWithdraw options \<Rightarrow>
          apfst (map_sum id AnOffer) (createWithdraw_body conn options w)
      | DisableWithdraw invoiceRequestId \<Rightarrow>
          apfst (map_sum id (\<lambda>_. Disabled)) (disableWithdraw_body conn invoiceRequestId w)
      | FetchInvoice options \<Rightarrow>
          apfst (map_sum id Bolt12Invoice) (fetchInvoice_body conn options w)
      | SendInvoice options \<Rightarrow>
          apfst (map_sum id AnInvoice) (sendInvoice_body conn env options w)
      | PayInvoice bolt12 \<Rightarrow> apfst (map_sum id AnInvoice) (payInvoice_body conn env bolt12 w))"

definition catch_context :: "operation \<Rightarrow> string" where
  "catch_context call =
     (case call of
        Get sched \<Rightarrow> ''get (offers)''
      | CreatePay options \<Rightarrow> ''createPay (offers)''
      | DisablePay offerId \<Rightarrow> ''disablePay (offers)''
      | CreateWithdraw options \<Rightarrow> ''createWithdraw (offers)''
      | DisableWithdraw invoiceRequestId \<Rightarrow> ''disableWithdraw (offers)''
      | FetchInvoice options \<Rightarrow> ''fetchInvoice (offers)''
      | SendInvoice options \<Rightarrow> ''sendInvoice (offers)''
      | PayInvoice bolt12 \<Rightarrow> ''sendInvoice (offers)'')"

text \<open>
  The failure raised inside the \<open>try\<close> block of an operation of the connection module, if
  there is one, and the context string in its \<open>catch\<close> block. In \<open>get\<close>, what is awaited
  inside the block is the pair of list calls.
\<close>

definition thrown :: "'e + 'a \<Rightarrow> 'e option" where
  "thrown r = (case r of Inl e \<Rightarrow> Some e | Inr v \<Rightarrow> None)"

definition conn_try_failure ::
  "connection \<Rightarrow> env \<Rightarrow> conn_operation \<Rightarrow> world \<Rightarrow> raw_error option" where
  "conn_try_failure conn env call w =
     (case call of
        ConnGet sched \<Rightarrow>
          thrown (Promise_all2 (rpc_listoffers conn) (rpc_listinvoicerequests conn)
                    (cg_listoffers_first sched))
      | ConnCreatePay options \<Rightarrow> thrown (fst (conn_createPay_body conn options w))
      | ConnDisablePay offerId \<Rightarrow> thrown (fst (disablePay_body conn offerId w))
      | ConnCreateWithdraw options \<Rightarrow> thrown (fst (conn_createWithdraw_body conn options w))
      | ConnDisableWithdraw invoiceRequestId \<Rightarrow>
          thrown (fst (disableWithdraw_body conn invoiceRequestId w))
      | ConnFetchInvoice options \<Rightarrow> thrown (fst (conn_fetchInvoice_body conn options w))
      | ConnSendInvoice options \<Rightarrow> thrown (fst (conn_sendInvoice_body conn env options w)))"

definition conn_catch_context :: "conn_operation \<Rightarrow> string" where
  "conn_catch_context call =
     (case call of
        ConnGet sched \<Rightarrow> ''get (offers)''
      | ConnCreatePay options \<Rightarrow> ''createPay (offers)''
      | ConnDisablePay offerId \<Rightarrow> ''disablePay (offers)''
      | ConnCreateWithdraw options \<Rightarrow> ''createWithdraw (offers)''
      | ConnDisableWithdraw invoiceRequestId \<Rightarrow> ''disableWithdraw (offers)''
      | ConnFetchInvoice options \<Rightarrow> ''fetchInvoice (offers)''
      | ConnSendInvoice options \<Rightarrow> ''sendInvoice (offers)'')"

text \<open>
  The sample node, answering \<open>sendinvoice\<close> with \<open>paid_at = 0\<close>, and answering \<open>pay\<close>
  with a fee of 1400 millisatoshis.
\<close>

definition zero_paid_connection :: connection where
  "zero_paid_connection =
     sample_connection
       \<lparr>rpc_sendinvoice := (\<lambda>ps. Inr
          \<lparr>sir_payment_hash = ''00ff'', sir_payment_preimage = None, sir_status = ''paid'',
           sir_bolt12 = Some ''lni1invoice'', sir_expires_at = Some 1700000600,
           sir_paid_at = Some 0, sir_amount_received_msat = Some ''5000000msat'',
           sir_pay_index = Some 3\<rparr>)\<rparr>"

definition subsat_connection :: connection where
  "subsat_connection =
     sample_connection
       \<lparr>rpc_pay := (\<lambda>ps. Inr
          \<lparr>pr_payment_hash = ''00ff'', pr_payment_preimage = Some ''11aa'',
           pr_created_at = 1700000000, pr_amount_msat = ''100000'',
           pr_amount_sent_msat = ''101400'', pr_status = ''complete'',
           pr_destination = Some ''02abc''\<rparr>)\<rparr>"

section \<open>Properties of the error history\<close>

lemma scan_step_skip:
  "connectionId (detail e) = None \<or> connectionId (detail e) = Some [] \<Longrightarrow> scan_step acc e = acc"
  by (auto simp: scan_step_def)

lemma scan_step_same:
  "connectionId (detail e) = Some cid \<Longrightarrow> cid \<noteq> [] \<Longrightarrow>
   scan_step acc e cid = Some (take 10 ((case acc cid of None \<Rightarrow> [] | Some es \<Rightarrow> es) @ [e]))"
  by (simp add: scan_step_def Let_def min_def)

lemma scan_step_other:
  "connectionId (detail e) \<noteq> Some c \<Longrightarrow> scan_step acc e c = acc c"
  by (auto simp: scan_step_def Let_def split: option.splits)


lemma foldl_scan_inv:
  assumes "\<And>c es e. acc c = Some es \<Longrightarrow> e \<in> set es \<Longrightarrow> connection_key e \<and> connectionId (detail e) = Some c"
      and "\<forall>e \<in> set xs. connection_key e"
      and "foldl scan_step acc xs c = Some es" and "e \<in> set es"
  shows "connection_key e \<and> connectionId (detail e) = Some c"
  using assms
proof (induction xs arbitrary: acc)
  case Nil
  then show ?case by simp
next
  case (Cons x xs)
  have inv: "\<And>c es e. scan_step acc x c = Some es \<Longrightarrow> e \<in> set es \<Longrightarrow>
        connection_key e \<and> connectionId (detail e) = Some c"
  proof -
    fix c es e assume a: "scan_step acc x c = Some es" "e \<in> set es"
    show "connection_key e \<and> connectionId (detail e) = Some c"
    proof (cases "connectionId (detail x) = Some c \<and> c \<noteq> []")
      case True
      then have "es = take 10 ((case acc c of None \<Rightarrow> [] | Some es \<Rightarrow> es) @ [x])"
        using a(1) scan_step_same by simp
      then have "e \<in> set ((case acc c of None \<Rightarrow> [] | Some es \<Rightarrow> es) @ [x])"
        using a(2) in_set_takeD by metis
      then show ?thesis using True Cons.prems(1)[of c] Cons.prems(2) by (cases "acc c") auto
    next
      case False
      then have "scan_step acc x c = acc c"
        by (cases "connectionId (detail x) = Some c") (auto simp: scan_step_skip scan_step_other)
      then have "acc c = Some es" using a(1) by simp
      then show ?thesis using a(2) Cons.prems(1) by blast
    qed
  qed
  show ?case
    by (rule Cons.IH[of "scan_step acc x"]) (use inv Cons.prems in auto)
qed

lemma connectionErrors_members:
  "connectionErrors pushed c = Some es \<Longrightarrow> e \<in> set es \<Longrightarrow>
   connection_key e \<and> connectionId (detail e) = Some c"
  unfolding connectionErrors_def
  by (rule foldl_scan_inv[of Map.empty "filter connection_key pushed" c es e]) auto

lemma connectionErrors_snoc:
  "connectionErrors (pushed @ [e]) =
     (if connection_key e then scan_step (connectionErrors pushed) e else connectionErrors pushed)"
  by (simp add: connectionErrors_def)

lemma connectionErrors_ignored:
  "\<not> connection_key e \<or> connectionId (detail e) = None \<or> connectionId (detail e) = Some [] \<Longrightarrow>
   connectionErrors (pushed @ [e]) = connectionErrors pushed"
  by (auto simp: connectionErrors_snoc scan_step_skip)

lemma connectionErrors_length:
  "connectionErrors pushed c = Some es \<Longrightarrow> length es \<le> 10"
proof (induction pushed arbitrary: es rule: rev_induct)
  case Nil
  then show ?case by (simp add: connectionErrors_def)
next
  case (snoc x xs)
  show ?case
  proof (cases "connection_key x \<and> connectionId (detail x) = Some c \<and> c \<noteq> []")
    case True
    then show ?thesis using snoc.prems by (auto simp: connectionErrors_snoc scan_step_same)
  next
    case False
    then have "connectionErrors (xs @ [x]) c = connectionErrors xs c"
      by (cases "connectionId (detail x) = Some c")
         (auto simp: connectionErrors_snoc scan_step_skip scan_step_other)
    then show ?thesis using snoc by simp
  qed
qed

lemma connectionErrors_single_connection:
  assumes "\<forall>e \<in> set es. connection_key e \<and> connectionId (detail e) = Some c" "c \<noteq> []" "es \<noteq> []"
  shows "connectionErrors es c = Some (take 10 es)"
  using assms
proof (induction es rule: rev_induct)
  case Nil
  then show ?case by simp
next
  case (snoc x xs)
  show ?case
  proof (cases "xs = []")
    case True
    then show ?thesis using snoc.prems
      by (simp add: connectionErrors_snoc scan_step_same connectionErrors_def)
  next
    case False
    then have "connectionErrors xs c = Some (take 10 xs)" using snoc by simp
    then show ?thesis using snoc.prems
      by (simp add: connectionErrors_snoc scan_step_same min_def)
  qed
qed

lemma sample_error_props:
  "connection_key (sample_error c i)" "connectionId (detail (sample_error c i)) = Some c"
  by (simp_all add: sample_error_def connection_key_def)


text \<open>
  C2. The history of a connection is meant to hold its ten most recent errors. The code
  appends the new error and then cuts the array to its first ten elements, so once ten
  errors are stored every later one is dropped: after fifteen errors of connection \<open>c1\<close>
  the history holds errors 1 to 10, not errors 6 to 15.
\<close>

theorem history_after_fifteen_errors:
  "connectionErrors (map (sample_error ''c1'') [1..<16]) ''c1''
     = Some (map (sample_error ''c1'') [1..<11])
   \<and> connectionErrors (map (sample_error ''c1'') [1..<16]) ''c1''
     \<noteq> Some (map (sample_error ''c1'') [6..<16])"
proof -
  have first: "connectionErrors (map (sample_error ''c1'') [1..<16]) ''c1''
     = Some (map (sample_error ''c1'') [1..<11])"
    using connectionErrors_single_connection[of "map (sample_error ''c1'') [1..<16]" "''c1''"]
    by (simp add: sample_error_props take_map)
  have "map (sample_error ''c1'') [1..<11] \<noteq> map (sample_error ''c1'') [6..<16]"
    by (simp add: sample_error_def upt_conv_Cons)
  with first show ?thesis by simp
qed

text \<open>
  C10. Invariant of the accumulated histories: every error stored under a connection id
  has a key that starts with \<open>connection_\<close> and carries that connection id in its detail;
  and an error whose key does not start with \<open>connection_\<close>, or whose detail carries no
  connection id, leaves all histories as they were.
\<close>

theorem connectionErrors_invariant:
  "(connectionErrors pushed c = Some es \<longrightarrow> e \<in> set es \<longrightarrow>
      connection_key e \<and> connectionId (detail e) = Some c)
   \<and> (\<not> connection_key e' \<or> connectionId (detail e') = None \<longrightarrow>
      connectionErrors (pushed @ [e']) = connectionErrors pushed)"
  using connectionErrors_members[of pushed c es e] connectionErrors_ignored[of e' pushed]
  by blast

theorem connectionErrors_invariant_witness:
  "connectionErrors [sample_error ''c1'' 1] ''c1'' = Some [sample_error ''c1'' 1]
   \<and> sample_error ''c1'' 1 \<in> set [sample_error ''c1'' 1]
   \<and> connection_key (sample_error ''c1'' 1)
   \<and> connectionId (detail (sample_error ''c1'' 1)) = Some ''c1''
   \<and> \<not> connection_key ((sample_error ''c1'' 2)\<lparr>key := ''app_error''\<rparr>)
   \<and> connectionErrors ([sample_error ''c1'' 1] @ [(sample_error ''c1'' 2)\<lparr>key := ''app_error''\<rparr>])
       = connectionErrors [sample_error ''c1'' 1]"
proof -
  have stored: "connectionErrors [sample_error ''c1'' 1] ''c1'' = Some [sample_error ''c1'' 1]"
    by (simp add: connectionErrors_def sample_error_props scan_step_same)
  have other: "\<not> connection_key ((sample_error ''c1'' 2)\<lparr>key := ''app_error''\<rparr>)"
    by (simp add: connection_key_def)
  show ?thesis
    using stored other
      connectionErrors_invariant[of "[sample_error ''c1'' 1]" "''c1''" "[sample_error ''c1'' 1]"
        "sample_error ''c1'' 1" "(sample_error ''c1'' 2)\<lparr>key := ''app_error''\<rparr>"]
    by simp
qed

section \<open>Properties of the promise combinators\<close>

lemma settle_all_fulfilled:
  "settle (map (\<lambda>(i, v). (i, Inr v)) xs) stored = Inr (stored @ xs)"
  by (induction xs arbitrary: stored) auto

lemma settle_Inr_fulfilled:
  "settle ps stored = Inr res \<Longrightarrow> \<exists>xs. ps = map (\<lambda>(i, v). (i, Inr v)) xs"
proof (induction ps stored rule: settle.induct)
  case (1 stored)
  then show ?case by simp
next
  case (2 i e later stored)
  then show ?case by simp
next
  case (3 i v later stored)
  then obtain xs where "later = map (\<lambda>(i, v). (i, Inr v)) xs" by auto
  then have "(i, Inr v) # later = map (\<lambda>(i, v). (i, Inr v)) ((i, v) # xs)" by simp
  then show ?case by (rule exI)
qed

lemma insort_key_map_commute:
  "(\<And>y. f (g y) = h y) \<Longrightarrow> insort_key f (g x) (map g xs) = map g (insort_key h x xs)"
  by (induction xs) auto

lemma sort_key_map_commute:
  "(\<And>y. f (g y) = h y) \<Longrightarrow> sort_key f (map g xs) = map g (sort_key h xs)"
  by (induction xs) (auto simp: insort_key_map_commute)

lemma enumerate_map_Inr:
  "enumerate n (map Inr vs) = map (\<lambda>(i, v). (i, Inr v)) (enumerate n vs)"
  by (induction vs arbitrary: n) auto

lemma sort_key_map_Inr:
  "sort_key (f \<circ> fst) (map (\<lambda>(i, v). (i, Inr v)) xs)
     = map (\<lambda>(i, v). (i, Inr v)) (sort_key (f \<circ> fst) xs)"
  by (rule sort_key_map_commute) auto

lemma sort_enumerate_back:
  "sort_key fst (sort_key g (enumerate 0 vs)) = enumerate 0 vs"
proof (rule sort_key_inj_key_eq)
  show "mset (sort_key g (enumerate 0 vs)) = mset (enumerate 0 vs)" by simp
  show "inj_on fst (set (sort_key g (enumerate 0 vs)))"
    by (auto simp: inj_on_def in_set_enumerate_eq)
  show "sorted (map fst (enumerate 0 vs))" by simp
qed

lemma Promise_all_fulfilled: "Promise_all (map Inr vs) settled_at = Inr vs"
  by (simp add: Promise_all_def enumerate_map_Inr sort_key_map_Inr settle_all_fulfilled
      sort_enumerate_back)

lemma Promise_all_Inr_iff: "Promise_all ps settled_at = Inr vs \<longleftrightarrow> ps = map Inr vs"
proof
  assume a: "Promise_all ps settled_at = Inr vs"
  then obtain stored where
    "settle (sort_key (settled_at \<circ> fst) (enumerate 0 ps)) [] = Inr stored"
    by (auto simp: Promise_all_def split: sum.splits)
  then obtain xs where xs: "sort_key (settled_at \<circ> fst) (enumerate 0 ps) = map (\<lambda>(i, v). (i, Inr v)) xs"
    using settle_Inr_fulfilled by blast
  have "set (enumerate 0 ps) = set (sort_key (settled_at \<circ> fst) (enumerate 0 ps))" by simp
  then have "snd ` set (enumerate 0 ps) \<subseteq> range Inr" unfolding xs by auto
  then have "set ps \<subseteq> range Inr"
    by (metis map_snd_enumerate set_map)
  then obtain ws where ws: "ps = map Inr ws"
    by (metis ex_map_conv subset_iff rangeE)
  with a show "ps = map Inr vs" by (simp add: Promise_all_fulfilled)
next
  assume "ps = map Inr vs"
  then show "Promise_all ps settled_at = Inr vs" by (simp add: Promise_all_fulfilled)
qed


section \<open>Failures of the operations\<close>

lemma rpc_errors_pushed [simp]: "errors_pushed (rpc conn request w) = errors_pushed w"
  by (simp add: rpc_def)

lemma get_body_no_push: "errors_pushed (snd (get_body conn env sched w)) = errors_pushed w"
  by (simp add: get_body_def Let_def split: sum.splits prod.splits)

lemma createPay_body_no_push:
  "errors_pushed (snd (createPay_body conn options w)) = errors_pushed w"
  by (simp add: createPay_body_def Let_def split: sum.splits)

lemma disablePay_body_no_push:
  "errors_pushed (snd (disablePay_body conn offerId w)) = errors_pushed w"
  by (simp add: disablePay_body_def Let_def)

lemma createWithdraw_body_no_push:
  "errors_pushed (snd (createWithdraw_body conn options w)) = errors_pushed w"
  by (simp add: createWithdraw_body_def Let_def split: sum.splits)

lemma disableWithdraw_body_no_push:
  "errors_pushed (snd (disableWithdraw_body conn invoiceRequestId w)) = errors_pushed w"
  by (simp add: disableWithdraw_body_def Let_def)

lemma fetchInvoice_body_no_push:
  "errors_pushed (snd (fetchInvoice_body conn options w)) = errors_pushed w"
  by (simp add: fetchInvoice_body_def Let_def split: sum.splits)

lemma sendInvoice_body_no_push:
  "errors_pushed (snd (sendInvoice_body conn env options w)) = errors_pushed w"
  by (simp add: sendInvoice_body_def Let_def split: sum.splits)

lemma payInvoice_body_no_push:
  "errors_pushed (snd (payInvoice_body conn env bolt12 w)) = errors_pushed w"
  by (simp add: payInvoice_body_def Let_def split: sum.splits)

lemma catch_wallet_rejected:
  assumes "errors_pushed (snd body) = pushed"
    and "fst (catch_wallet conn env ctx body) = Inl ce"
  shows "(\<exists>raw. fst body = Inl raw \<and> ce = handleError env raw ctx (Some (walletId conn)))
         \<and> errors_pushed (snd (catch_wallet conn env ctx body)) = pushed @ [ce]"
  using assms by (cases body) (auto simp: catch_wallet_def Let_def split: sum.splits)

lemma catch_wallet_resolved:
  assumes "errors_pushed (snd body) = pushed"
    and "fst (catch_wallet conn env ctx body) = Inr v"
  shows "fst body = Inr v \<and> snd (catch_wallet conn env ctx body) = snd body"
  using assms by (cases body) (auto simp: catch_wallet_def Let_def split: sum.splits)

lemma catch_conn_world: "snd (catch_conn env ctx body) = snd body"
  by (cases body) (auto simp: catch_conn_def split: sum.splits)

lemma map_sum_id_Inl [simp]: "(map_sum id g x = Inl e) = (x = Inl e)"
  by (cases x) auto

lemma perform_rejected:
  assumes "fst (perform conn env call w) = Inl ce"
  shows "(\<exists>raw ctx. ce = handleError env raw ctx (Some (walletId conn)))
         \<and> errors_pushed (snd (perform conn env call w)) = errors_pushed w @ [ce]"
proof (cases call)
  case (Get sched)
  with assms have "fst (catch_wallet conn env ''get (offers)'' (get_body conn env sched w)) = Inl ce"
    by (simp add: perform_def get_def)
  from catch_wallet_rejected[OF get_body_no_push this] show ?thesis
    using Get by (auto simp: perform_def get_def)
next
  case (CreatePay options)
  with assms have "fst (catch_wallet conn env ''createPay (offers)'' (createPay_body conn options w)) = Inl ce"
    by (simp add: perform_def createPay_def)
  from catch_wallet_rejected[OF createPay_body_no_push this] show ?thesis
    using CreatePay by (auto simp: perform_def createPay_def)
next
  case (DisablePay offerId)
  with assms have "fst (catch_wallet conn env ''disablePay (offers)'' (disablePay_body conn offerId w)) = Inl ce"
    by (simp add: perform_def disablePay_def)
  from catch_wallet_rejected[OF disablePay_body_no_push this] show ?thesis
    using DisablePay by (auto simp: perform_def disablePay_def)
next
  case (CreateWithdraw options)
  with assms have "fst (catch_wallet conn env ''createWithdraw (offers)'' (createWithdraw_body conn options w)) = Inl ce"
    by (simp add: perform_def createWithdraw_def)
  from catch_wallet_rejected[OF createWithdraw_body_no_push this] show ?thesis
    using CreateWithdraw by (auto simp: perform_def createWithdraw_def)
next
  case (DisableWithdraw invoiceRequestId)
  with assms have "fst (catch_wallet conn env ''disableWithdraw (offers)'' (disableWithdraw_body conn invoiceRequestId w)) = Inl ce"
    by (simp add: perform_def disableWithdraw_def)
  from catch_wallet_rejected[OF disableWithdraw_body_no_push this] show ?thesis
    using DisableWithdraw by (auto simp: perform_def disableWithdraw_def)
next
  case (FetchInvoice options)
  with assms have "fst (catch_wallet conn env ''fetchInvoice (offers)'' (fetchInvoice_body conn options w)) = Inl ce"
    by (simp add: perform_def fetchInvoice_def)
  from catch_wallet_rejected[OF fetchInvoice_body_no_push this] show ?thesis
    using FetchInvoice by (auto simp: perform_def fetchInvoice_def)
next
  case (SendInvoice options)
  with assms have "fst (catch_wallet conn env ''sendInvoice (offers)'' (sendInvoice_body conn env options w)) = Inl ce"
    by (simp add: perform_def sendInvoice_def)
  from catch_wallet_rejected[OF sendInvoice_body_no_push this] show ?thesis
    using SendInvoice by (auto simp: perform_def sendInvoice_def)
next
  case (PayInvoice bolt12)
  with assms have "fst (catch_wallet conn env ''sendInvoice (offers)'' (payInvoice_body conn env bolt12 w)) = Inl ce"
    by (simp add: perform_def payInvoice_def)
  from catch_wallet_rejected[OF payInvoice_body_no_push this] show ?thesis
    using PayInvoice by (auto simp: perform_def payInvoice_def)
qed

lemma conn_perform_no_push:
  "errors_pushed (snd (conn_perform conn env call w)) = errors_pushed w"
proof (cases call)
  case (ConnGet sched)
  then show ?thesis
    by (simp add: conn_perform_def conn_get_def Let_def split: sum.splits prod.splits)
next
  case (ConnCreatePay options)
  then show ?thesis
    by (simp add: conn_perform_def conn_createPay_def catch_conn_world conn_createPay_body_def
        Let_def split: sum.splits)
next
  case (ConnDisablePay offerId)
  then show ?thesis
    by (simp add: conn_perform_def conn_disablePay_def catch_conn_world disablePay_body_no_push)
next
  case (ConnCreateWithdraw options)
  then show ?thesis
    by (simp add: conn_perform_def conn_createWithdraw_def catch_conn_world
        conn_createWithdraw_body_def Let_def split: sum.splits)
next
  case (ConnDisableWithdraw invoiceRequestId)
  then show ?thesis
    by (simp add: conn_perform_def conn_disableWithdraw_def catch_conn_world
        disableWithdraw_body_no_push)
next
  case (ConnFetchInvoice options)
  then show ?thesis
    by (simp add: conn_perform_def conn_fetchInvoice_def catch_conn_world
        conn_fetchInvoice_body_def Let_def)
next
  case (ConnSendInvoice options)
  then show ?thesis
    by (simp add: conn_perform_def conn_sendInvoice_def catch_conn_world
        conn_sendInvoice_body_def Let_def split: sum.splits)
qed


text \<open>
  The context and the connection id of the error an operation of the wallet module fails
  with: every operation but \<open>payInvoice\<close> fails with its own context.
\<close>

lemma catch_wallet_context:
  "fst (catch_wallet conn env ctx body) = Inl ce \<Longrightarrow>
   op_context (detail ce) = ctx \<and> connectionId (detail ce) = Some (walletId conn)"
  by (cases body) (auto simp: catch_wallet_def handleError_def Let_def split: sum.splits)

lemma perform_context:
  assumes "fst (perform conn env call w) = Inl ce"
  shows "connectionId (detail ce) = Some (walletId conn)
         \<and> op_context (detail ce)
             = (case call of PayInvoice bolt12 \<Rightarrow> ''sendInvoice (offers)'' | _ \<Rightarrow> own_context call)"
proof (cases call)
  case (Get sched)
  with assms show ?thesis
    using catch_wallet_context[of conn env "''get (offers)''" "get_body conn env sched w" ce]
    by (simp add: perform_def get_def own_context_def operation_name_def)
next
  case (CreatePay options)
  with assms show ?thesis
    using catch_wallet_context[of conn env "''createPay (offers)''"
        "createPay_body conn options w" ce]
    by (simp add: perform_def createPay_def own_context_def operation_name_def)
next
  case (DisablePay offerId)
  with assms show ?thesis
    using catch_wallet_context[of conn env "''disablePay (offers)''"
        "disablePay_body conn offerId w" ce]
    by (simp add: perform_def disablePay_def own_context_def operation_name_def)
next
  case (CreateWithdraw options)
  with assms show ?thesis
    using catch_wallet_context[of conn env "''createWithdraw (offers)''"
        "createWithdraw_body conn options w" ce]
    by (simp add: perform_def createWithdraw_def own_context_def operation_name_def)
next
  case (DisableWithdraw invoiceRequestId)
  with assms show ?thesis
    using catch_wallet_context[of conn env "''disableWithdraw (offers)''"
        "disableWithdraw_body conn invoiceRequestId w" ce]
    by (simp add: perform_def disableWithdraw_def own_context_def operation_name_def)
next
  case (FetchInvoice options)
  with assms show ?thesis
    using catch_wallet_context[of conn env "''fetchInvoice (offers)''"
        "fetchInvoice_body conn options w" ce]
    by (simp add: perform_def fetchInvoice_def own_context_def operation_name_def)
next
  case (SendInvoice options)
  with assms show ?thesis
    using catch_wallet_context[of conn env "''sendInvoice (offers)''"
        "sendInvoice_body conn env options w" ce]
    by (simp add: perform_def sendInvoice_def own_context_def operation_name_def)
next
  case (PayInvoice bolt12)
  with assms show ?thesis
    using catch_wallet_context[of conn env "''sendInvoice (offers)''"
        "payInvoice_body conn env bolt12 w" ce]
    by (simp add: perform_def payInvoice_def)
qed


text \<open>
  Every operation of the wallet module is its \<open>try\<close> block followed by its \<open>catch\<close>
  block; a failure of the block is mapped, pushed and thrown. In the connection module a
  failure raised inside the \<open>try\<close> block is mapped and thrown.
\<close>

lemma catch_wallet_apfst:
  "apfst (map_sum id f) (catch_wallet conn env ctx body)
     = catch_wallet conn env ctx (apfst (map_sum id f) body)"
  by (cases body) (auto simp: catch_wallet_def Let_def split: sum.splits)

lemma perform_catch:
  "perform conn env call w
     = catch_wallet conn env (catch_context call) (perform_body conn env call w)"
  by (cases call)
    (simp_all add: perform_def perform_body_def catch_context_def catch_wallet_apfst
      get_def createPay_def disablePay_def createWithdraw_def disableWithdraw_def
      fetchInvoice_def sendInvoice_def payInvoice_def)

lemma perform_body_no_push:
  "errors_pushed (snd (perform_body conn env call w)) = errors_pushed w"
  by (cases call)
    (simp_all add: perform_body_def get_body_no_push createPay_body_no_push
      disablePay_body_no_push createWithdraw_body_no_push disableWithdraw_body_no_push
      fetchInvoice_body_no_push sendInvoice_body_no_push payInvoice_body_no_push)

lemma perform_body_failure:
  assumes "fst (perform_body conn env call w) = Inl raw"
  shows "fst (perform conn env call w)
           = Inl (handleError env raw (catch_context call) (Some (walletId conn)))
         \<and> errors_pushed (snd (perform conn env call w))
           = errors_pushed w
             @ [handleError env raw (catch_context call) (Some (walletId conn))]"
  using assms perform_body_no_push[of conn env call w]
  by (cases "perform_body conn env call w") (simp add: perform_catch catch_wallet_def Let_def)

lemma perform_rejected_body:
  assumes "fst (perform conn env call w) = Inl ce"
  shows "(\<exists>raw. fst (perform_body conn env call w) = Inl raw
            \<and> ce = handleError env raw (catch_context call) (Some (walletId conn)))
         \<and> errors_pushed (snd (perform conn env call w)) = errors_pushed w @ [ce]"
proof -
  from assms have "fst (catch_wallet conn env (catch_context call)
      (perform_body conn env call w)) = Inl ce"
    by (simp add: perform_catch)
  from catch_wallet_rejected[OF perform_body_no_push this] show ?thesis
    by (simp add: perform_catch)
qed

lemma catch_conn_thrown:
  "thrown (fst body) = Some raw \<Longrightarrow>
   fst (catch_conn env ctx body) = Inl (handleError env raw ctx None)"
  by (cases body) (auto simp: catch_conn_def thrown_def split: sum.splits)

lemma conn_try_failure_mapped:
  assumes "conn_try_failure conn env call w = Some raw"
  shows "fst (conn_perform conn env call w)
           = Inl (ConnectionError (handleError env raw (conn_catch_context call) None))"
proof (cases call)
  case (ConnGet sched)
  with assms show ?thesis
    by (auto simp: conn_try_failure_def conn_perform_def conn_catch_context_def conn_get_def
        thrown_def Let_def split: sum.splits)
next
  case (ConnCreatePay options)
  with assms show ?thesis
    by (simp add: conn_try_failure_def conn_perform_def conn_catch_context_def
        conn_createPay_def catch_conn_thrown)
next
  case (ConnDisablePay offerId)
  with assms show ?thesis
    by (simp add: conn_try_failure_def conn_perform_def conn_catch_context_def
        conn_disablePay_def catch_conn_thrown)
next
  case (ConnCreateWithdraw options)
  with assms show ?thesis
    by (simp add: conn_try_failure_def conn_perform_def conn_catch_context_def
        conn_createWithdraw_def catch_conn_thrown)
next
  case (ConnDisableWithdraw invoiceRequestId)
  with assms show ?thesis
    by (simp add: conn_try_failure_def conn_perform_def conn_catch_context_def
        conn_disableWithdraw_def catch_conn_thrown)
next
  case (ConnFetchInvoice options)
  with assms show ?thesis
    by (simp add: conn_try_failure_def conn_perform_def conn_catch_context_def
        conn_fetchInvoice_def catch_conn_thrown)
next
  case (ConnSendInvoice options)
  with assms show ?thesis
    by (simp add: conn_try_failure_def conn_perform_def conn_catch_context_def
        conn_sendInvoice_def catch_conn_thrown)
qed


section \<open>Evaluation on the sample data\<close>

lemmas decimal_eval = parse_nat_def digit_value_def Big_def Big_toString_def show_nat.simps
  digit_char_def satsToMsats_def msatsToSats_def nearest_sat_def formatMsatString_def
  suffix_to_prefix and_then_def

lemmas sample_eval = sample_env_def sample_connection_def rejecting_connection_def
  sample_offers_def sample_invoicerequests_def sample_listed_def
  sample_world_def sample_rejection_def sample_schedule_def sample_conn_schedule_def
  sample_pay_options_def sample_withdraw_options_def sample_send_options_def
  sample_decoded_def sample_offer_def

lemmas js_eval = js_string_def js_number_def js_bool_def truthy_string_def truthy_number_def
  or_else_def orderedParams_def completedAt_def absoluteExpiry_def rpc_def

text \<open>
  C1, as stated, fails on the connection module: when the node rejects the list calls,
  \<open>get\<close> of \<open>connections/coreln/offers.ts\<close> throws the mapped error and nothing has been
  pushed on the error channel.
\<close>

theorem conn_get_rethrows_without_push:
  "fst (conn_get rejecting_connection sample_env sample_conn_schedule sample_world)
     = Inl (ConnectionError (handleError sample_env sample_rejection ''get (offers)'' None))
   \<and> errors_pushed (snd (conn_get rejecting_connection sample_env sample_conn_schedule sample_world))
     = []"
  by (simp add: conn_get_def Promise_all2_def sample_eval Let_def)

text \<open>
  C1, amended. For each of the eight public operations of the wallet module: a failure
  \<open>raw\<close> raised inside the \<open>try\<close> block makes the call reject with
  \<open>handleError(raw, context, walletId)\<close>, \<open>context\<close> the string in the \<open>catch\<close> block of the
  operation, and when the caller sees the rejection this error is the last one pushed on
  the connection's error channel, which otherwise is as before the call; and a call
  rejects only in this way, with the image of the failure its block raised, pushed.
  No operation of the connection module \<open>connections/coreln/offers.ts\<close> pushes on the
  channel; a failure raised inside the \<open>try\<close> block of one of its operations (for \<open>get\<close>:
  a rejection of the list calls) makes the call reject with \<open>handleError(raw, context)\<close>.
\<close>

theorem failure_mapped_pushed_rethrown:
  "(fst (perform_body conn env call w) = Inl raw \<longrightarrow>
      fst (perform conn env call w)
        = Inl (handleError env raw (catch_context call) (Some (walletId conn)))
      \<and> errors_pushed (snd (perform conn env call w))
        = errors_pushed w @ [handleError env raw (catch_context call) (Some (walletId conn))])
   \<and> (fst (perform conn env call w) = Inl ce \<longrightarrow>
      (\<exists>caught. fst (perform_body conn env call w) = Inl caught
         \<and> ce = handleError env caught (catch_context call) (Some (walletId conn)))
      \<and> errors_pushed (snd (perform conn env call w)) = errors_pushed w @ [ce])
   \<and> errors_pushed (snd (conn_perform conn env call' w')) = errors_pushed w'
   \<and> (conn_try_failure conn env call' w' = Some raw' \<longrightarrow>
      fst (conn_perform conn env call' w')
        = Inl (ConnectionError (handleError env raw' (conn_catch_context call') None)))"
  using perform_body_failure[of conn env call w raw] perform_rejected_body[of conn env call w ce]
    conn_perform_no_push[of conn env call' w'] conn_try_failure_mapped[of conn env call' w' raw']
  by blast

theorem failure_mapped_pushed_rethrown_witness:
  "fst (perform_body rejecting_connection sample_env (CreatePay sample_pay_options) sample_world)
     = Inl sample_rejection
   \<and> fst (perform rejecting_connection sample_env (CreatePay sample_pay_options) sample_world)
     = Inl (handleError sample_env sample_rejection ''createPay (offers)'' (Some ''wallet-1''))
   \<and> errors_pushed (snd (perform rejecting_connection sample_env (CreatePay sample_pay_options)
        sample_world))
     = [handleError sample_env sample_rejection ''createPay (offers)'' (Some ''wallet-1'')]
   \<and> conn_try_failure rejecting_connection sample_env (ConnGet sample_conn_schedule) sample_world
     = Some sample_rejection
   \<and> fst (conn_perform rejecting_connection sample_env (ConnGet sample_conn_schedule) sample_world)
     = Inl (ConnectionError (handleError sample_env sample_rejection ''get (offers)'' None))
   \<and> errors_pushed (snd (conn_perform rejecting_connection sample_env
        (ConnGet sample_conn_schedule) sample_world))
     = []"
proof -
  have body:
    "fst (perform_body rejecting_connection sample_env (CreatePay sample_pay_options) sample_world)
       = Inl sample_rejection"
    by (simp add: perform_body_def createPay_body_def createPay_amount_def decimal_eval
        sample_eval Let_def)
  have listing:
    "conn_try_failure rejecting_connection sample_env (ConnGet sample_conn_schedule) sample_world
       = Some sample_rejection"
    by (simp add: conn_try_failure_def thrown_def Promise_all2_def sample_eval)
  have known:
    "catch_context (CreatePay sample_pay_options) = ''createPay (offers)''"
    "conn_catch_context (ConnGet sample_conn_schedule) = ''get (offers)''"
    "walletId rejecting_connection = ''wallet-1''"
    "errors_pushed sample_world = []"
    by (simp_all add: catch_context_def conn_catch_context_def rejecting_connection_def
        sample_connection_def sample_world_def)
  note all = failure_mapped_pushed_rethrown[of rejecting_connection sample_env
      "CreatePay sample_pay_options" sample_world sample_rejection
      "handleError sample_env sample_rejection ''createPay (offers)'' (Some ''wallet-1'')"
      "ConnGet sample_conn_schedule" sample_world sample_rejection]
  from all body have rejected:
    "fst (perform rejecting_connection sample_env (CreatePay sample_pay_options) sample_world)
       = Inl (handleError sample_env sample_rejection
           (catch_context (CreatePay sample_pay_options)) (Some (walletId rejecting_connection)))"
    and pushed:
    "errors_pushed (snd (perform rejecting_connection sample_env (CreatePay sample_pay_options)
        sample_world))
       = errors_pushed sample_world
         @ [handleError sample_env sample_rejection
             (catch_context (CreatePay sample_pay_options)) (Some (walletId rejecting_connection))]"
    by blast+
  from all have silent:
    "errors_pushed (snd (conn_perform rejecting_connection sample_env
        (ConnGet sample_conn_schedule) sample_world)) = errors_pushed sample_world"
    by blast
  from all listing have mapped:
    "fst (conn_perform rejecting_connection sample_env (ConnGet sample_conn_schedule) sample_world)
       = Inl (ConnectionError (handleError sample_env sample_rejection
           (conn_catch_context (ConnGet sample_conn_schedule)) None))"
    by blast
  show ?thesis
    using body listing rejected pushed silent mapped
    by (simp only: known append_Nil simp_thms)
qed


lemma payInvoice_context:
  assumes "fst (payInvoice conn env bolt12 w) = Inl ce"
  shows "op_context (detail ce) = ''sendInvoice (offers)''"
proof -
  from assms have "fst (catch_wallet conn env ''sendInvoice (offers)''
      (payInvoice_body conn env bolt12 w)) = Inl ce"
    by (simp add: payInvoice_def)
  from catch_wallet_rejected[OF payInvoice_body_no_push this] show ?thesis
    by (auto simp: handleError_def)
qed

text \<open>
  C4. Every operation is meant to fail with a context that names it. \<open>payInvoice\<close> fails
  with the context of \<open>sendInvoice\<close>: on a node that rejects \<open>pay\<close>, the error thrown by
  \<open>payInvoice\<close> has the context \<open>sendInvoice (offers)\<close>, not \<open>payInvoice (offers)\<close>.
\<close>

theorem payInvoice_failure_context:
  "fst (payInvoice rejecting_connection sample_env ''lni1invoice'' sample_world)
     = Inl (handleError sample_env sample_rejection ''sendInvoice (offers)'' (Some ''wallet-1''))
   \<and> op_context (detail (handleError sample_env sample_rejection ''sendInvoice (offers)''
        (Some ''wallet-1''))) \<noteq> own_context (PayInvoice ''lni1invoice'')
   \<and> own_context (PayInvoice ''lni1invoice'') = ''payInvoice (offers)''"
  by (simp add: payInvoice_def payInvoice_body_def catch_wallet_def sample_eval Let_def
      handleError_def rpc_def own_context_def operation_name_def)

text \<open>
  C6. \<open>createPay\<close> and \<open>createWithdraw\<close> of the wallet module are meant to treat the expiry
  alike. Called at time 1700000000 with the relative expiry 3600, both send
  \<open>absolute_expiry = 1700003600\<close> to the node; the offer returned by \<open>createPay\<close> has the
  absolute expiry 1700003600, the offer returned by \<open>createWithdraw\<close> has the relative
  expiry 3600.
\<close>

theorem createWithdraw_expiry_mixed:
  "map (named_param ''absolute_expiry'')
       (issued (snd (createWithdraw sample_connection sample_env sample_withdraw_options sample_world)))
     = [Some (JNumber 1700003600)]
   \<and> map_sum id o_expiry
        (fst (createWithdraw sample_connection sample_env sample_withdraw_options sample_world))
     = Inr (Some 3600)
   \<and> map (named_param ''absolute_expiry'')
       (issued (snd (createPay sample_connection sample_env sample_pay_options sample_world)))
     = [Some (JNumber 1700003600)]
   \<and> map_sum id o_expiry
        (fst (createPay sample_connection sample_env sample_pay_options sample_world))
     = Inr (Some 1700003600)"
  by (simp add: createWithdraw_def createWithdraw_body_def createPay_def createPay_body_def
      createPay_amount_def catch_wallet_def absoluteExpiry_def named_param_def rpc_def
      js_number_def js_string_def js_bool_def decimal_eval sample_eval Let_def)


section \<open>The parameters of sendinvoice\<close>

lemma show_nat_nonempty: "show_nat n \<noteq> []"
  by (subst show_nat.simps) simp

lemma satsToMsats_nonempty: "satsToMsats a = Inr m \<Longrightarrow> m \<noteq> []"
  by (auto simp: satsToMsats_def Big_toString_def show_nat_nonempty split: sum.splits if_splits)

lemma amount_and_msats_present:
  "a \<noteq> [] \<Longrightarrow> satsToMsats a = Inr m \<Longrightarrow> amount_and_msats (Some a) = Inr (Some m)"
  by (simp add: amount_and_msats_def and_then_def)

lemma amount_and_msats_absent:
  "amount = None \<or> amount = Some [] \<Longrightarrow> amount_and_msats amount = Inr amount"
  by (auto simp: amount_and_msats_def)

lemma catch_wallet_world_issued:
  "issued (snd (catch_wallet conn env ctx body)) = issued (snd body)"
  by (cases body) (auto simp: catch_wallet_def Let_def split: sum.splits)

lemma catch_conn_issued:
  "issued (snd (catch_conn env ctx body)) = issued (snd body)"
  by (cases body) (auto simp: catch_conn_def split: sum.splits)

lemma catch_part000_issued:
  "issued (snd (catch_part000 conn env ctx body)) = issued (snd body)"
  by (cases body) (auto simp: catch_part000_def Let_def split: sum.splits)

lemma sendInvoice_issued:
  "amount_and_msats (sio_amount options) = Inr amountMsat \<Longrightarrow>
   issued (snd (sendInvoice conn env options w))
     = issued w @ [\<lparr>rpc_method = ''sendinvoice'',
                     rpc_params = Positional (orderedParams options amountMsat)\<rparr>]"
  by (simp add: sendInvoice_def catch_wallet_world_issued sendInvoice_body_def Let_def rpc_def
      split: sum.splits)

lemma conn_sendInvoice_issued:
  "issued (snd (conn_sendInvoice conn env options w))
     = issued w @ [\<lparr>rpc_method = ''sendinvoice'',
                     rpc_params = Positional (orderedParams options (sio_amount options))\<rparr>]"
  by (simp add: conn_sendInvoice_def catch_conn_issued conn_sendInvoice_body_def Let_def rpc_def
      split: sum.splits)

lemma orderedParams_present:
  "m \<noteq> [] \<Longrightarrow> orderedParams options (Some m)
     = [JString (sio_offer options), JString (sio_label options), JString m,
        js_number (sio_timeout options), js_number (sio_quantity options)]"
  by (simp add: orderedParams_def truthy_string_def js_string_def)

lemma orderedParams_absent:
  "amount = None \<or> amount = Some [] \<Longrightarrow> orderedParams options amount
     = [JString (sio_offer options), JString (sio_label options),
        js_number (sio_timeout options), js_number (sio_quantity options)]"
  by (auto simp: orderedParams_def truthy_string_def)

text \<open>
  C3, amended. The parameter list of \<open>sendinvoice\<close> is positional and depends on the
  amount. In the wallet module: for an amount that is present, not empty and convertible,
  the list is \<open>[offer, label, satsToMsats(amount), timeout, quantity]\<close>; for an amount that
  is absent or the empty string it is \<open>[offer, label, timeout, quantity]\<close>. In the
  connection module the amount is passed as it is: \<open>[offer, label, amount, timeout,
  quantity]\<close> when it is present and not empty, \<open>[offer, label, timeout, quantity]\<close>
  otherwise. In each case this is the one request the call issues.
\<close>

theorem sendInvoice_params:
  "(sio_amount o1 = Some a1 \<and> a1 \<noteq> [] \<and> satsToMsats a1 = Inr m \<longrightarrow>
      issued (snd (sendInvoice conn env o1 w))
        = issued w @ [\<lparr>rpc_method = ''sendinvoice'', rpc_params = Positional
            [JString (sio_offer o1), JString (sio_label o1), JString m,
             js_number (sio_timeout o1), js_number (sio_quantity o1)]\<rparr>])
   \<and> (sio_amount o2 = None \<or> sio_amount o2 = Some [] \<longrightarrow>
      issued (snd (sendInvoice conn env o2 w))
        = issued w @ [\<lparr>rpc_method = ''sendinvoice'', rpc_params = Positional
            [JString (sio_offer o2), JString (sio_label o2),
             js_number (sio_timeout o2), js_number (sio_quantity o2)]\<rparr>])
   \<and> (sio_amount o3 = Some a3 \<and> a3 \<noteq> [] \<longrightarrow>
      issued (snd (conn_sendInvoice conn env o3 w))
        = issued w @ [\<lparr>rpc_method = ''sendinvoice'', rpc_params = Positional
            [JString (sio_offer o3), JString (sio_label o3), JString a3,
             js_number (sio_timeout o3), js_number (sio_quantity o3)]\<rparr>])
   \<and> (sio_amount o4 = None \<or> sio_amount o4 = Some [] \<longrightarrow>
      issued (snd (conn_sendInvoice conn env o4 w))
        = issued w @ [\<lparr>rpc_method = ''sendinvoice'', rpc_params = Positional
            [JString (sio_offer o4), JString (sio_label o4),
             js_number (sio_timeout o4), js_number (sio_quantity o4)]\<rparr>])"
proof (intro conjI impI)
  assume "sio_amount o1 = Some a1 \<and> a1 \<noteq> [] \<and> satsToMsats a1 = Inr m"
  then show "issued (snd (sendInvoice conn env o1 w))
        = issued w @ [\<lparr>rpc_method = ''sendinvoice'', rpc_params = Positional
            [JString (sio_offer o1), JString (sio_label o1), JString m,
             js_number (sio_timeout o1), js_number (sio_quantity o1)]\<rparr>]"
    using sendInvoice_issued[of o1 "Some m" conn env w] satsToMsats_nonempty[of a1 m]
    by (simp add: amount_and_msats_present orderedParams_present)
next
  assume a: "sio_amount o2 = None \<or> sio_amount o2 = Some []"
  then show "issued (snd (sendInvoice conn env o2 w))
        = issued w @ [\<lparr>rpc_method = ''sendinvoice'', rpc_params = Positional
            [JString (sio_offer o2), JString (sio_label o2),
             js_number (sio_timeout o2), js_number (sio_quantity o2)]\<rparr>]"
    using sendInvoice_issued[of o2 "sio_amount o2" conn env w]
    by (simp add: amount_and_msats_absent orderedParams_absent)
next
  assume "sio_amount o3 = Some a3 \<and> a3 \<noteq> []"
  then show "issued (snd (conn_sendInvoice conn env o3 w))
        = issued w @ [\<lparr>rpc_method = ''sendinvoice'', rpc_params = Positional
            [JString (sio_offer o3), JString (sio_label o3), JString a3,
             js_number (sio_timeout o3), js_number (sio_quantity o3)]\<rparr>]"
    by (simp add: conn_sendInvoice_issued orderedParams_present)
next
  assume "sio_amount o4 = None \<or> sio_amount o4 = Some []"
  then show "issued (snd (conn_sendInvoice conn env o4 w))
        = issued w @ [\<lparr>rpc_method = ''sendinvoice'', rpc_params = Positional
            [JString (sio_offer o4), JString (sio_label o4),
             js_number (sio_timeout o4), js_number (sio_quantity o4)]\<rparr>]"
    by (simp add: conn_sendInvoice_issued orderedParams_absent)
qed


text \<open>
  C3, as stated, fails on the wallet module:
  \<open>sendInvoice({offer, label, amount: "5000", timeout: 30, quantity: 1})\<close> issues the
  parameters \<open>[offer, label, "5000000", 30, 1]\<close>, the amount converted to millisatoshis, and
  not \<open>[offer, label, "5000", 30, 1]\<close>.
\<close>

theorem sendInvoice_wallet_sends_msats:
  "issued (snd (sendInvoice sample_connection sample_env sample_send_options sample_world))
     = [\<lparr>rpc_method = ''sendinvoice'', rpc_params = Positional
          [JString ''lnr1withdraw'', JString ''label-1'', JString ''5000000'',
           JNumber 30, JNumber 1]\<rparr>]
   \<and> issued (snd (sendInvoice sample_connection sample_env sample_send_options sample_world))
     \<noteq> [\<lparr>rpc_method = ''sendinvoice'', rpc_params = Positional
          [JString ''lnr1withdraw'', JString ''label-1'', JString ''5000'',
           JNumber 30, JNumber 1]\<rparr>]"
proof -
  have msats: "amount_and_msats (sio_amount sample_send_options) = Inr (Some ''5000000'')"
    by (simp add: amount_and_msats_def sample_eval decimal_eval)
  show ?thesis
    unfolding sendInvoice_issued[OF msats]
    by (simp add: orderedParams_def truthy_string_def js_string_def js_number_def sample_eval)
qed

theorem sendInvoice_params_witness:
  "sio_amount sample_send_options = Some ''5000'' \<and> ''5000'' \<noteq> []
   \<and> satsToMsats ''5000'' = Inr ''5000000''
   \<and> issued (snd (sendInvoice sample_connection sample_env sample_send_options sample_world))
     = [\<lparr>rpc_method = ''sendinvoice'', rpc_params = Positional
          [JString ''lnr1withdraw'', JString ''label-1'', JString ''5000000'',
           JNumber 30, JNumber 1]\<rparr>]
   \<and> sio_amount (sample_send_options\<lparr>sio_amount := None\<rparr>) = None
   \<and> issued (snd (sendInvoice sample_connection sample_env
        (sample_send_options\<lparr>sio_amount := None\<rparr>) sample_world))
     = [\<lparr>rpc_method = ''sendinvoice'', rpc_params = Positional
          [JString ''lnr1withdraw'', JString ''label-1'', JNumber 30, JNumber 1]\<rparr>]
   \<and> issued (snd (conn_sendInvoice sample_connection sample_env sample_send_options sample_world))
     = [\<lparr>rpc_method = ''sendinvoice'', rpc_params = Positional
          [JString ''lnr1withdraw'', JString ''label-1'', JString ''5000'',
           JNumber 30, JNumber 1]\<rparr>]
   \<and> issued (snd (conn_sendInvoice sample_connection sample_env
        (sample_send_options\<lparr>sio_amount := None\<rparr>) sample_world))
     = [\<lparr>rpc_method = ''sendinvoice'', rpc_params = Positional
          [JString ''lnr1withdraw'', JString ''label-1'', JNumber 30, JNumber 1]\<rparr>]"
proof -
  have msats: "satsToMsats ''5000'' = Inr ''5000000''"
    by (simp add: decimal_eval)
  have present: "sio_amount sample_send_options = Some ''5000''"
    and absent: "sio_amount (sample_send_options\<lparr>sio_amount := None\<rparr>) = None"
    by (simp_all add: sample_send_options_def)
  show ?thesis
    using msats present absent
      sendInvoice_params[of sample_send_options "''5000''" "''5000000''" sample_connection
        sample_env sample_world "sample_send_options\<lparr>sio_amount := None\<rparr>"
        sample_send_options "''5000''" "sample_send_options\<lparr>sio_amount := None\<rparr>"]
    by (simp add: sample_send_options_def sample_world_def js_number_def)
qed


section \<open>The amount parameter of offer\<close>

lemma createPay_issued:
  "createPay_amount (cpo_amount options) = Inr p \<Longrightarrow>
   map (\<lambda>r. (rpc_method r, named_param ''amount'' r)) (issued (snd (createPay conn env options w)))
     = map (\<lambda>r. (rpc_method r, named_param ''amount'' r)) (issued w) @ [(''offer'', Some (JString p))]"
  by (simp add: createPay_def catch_wallet_world_issued createPay_body_def Let_def rpc_def
      named_param_def split: sum.splits)

lemma createPay_not_issued:
  "createPay_amount (cpo_amount options) = Inl e \<Longrightarrow>
   createPay conn env options w
     = (Inl (handleError env e ''createPay (offers)'' (Some (walletId conn))),
        w\<lparr>errors_pushed := errors_pushed w
              @ [handleError env e ''createPay (offers)'' (Some (walletId conn))]\<rparr>)"
  by (simp add: createPay_def createPay_body_def catch_wallet_def Let_def)

lemma conn_createPay_issued:
  "map (\<lambda>r. (rpc_method r, named_param ''amount'' r))
       (issued (snd (conn_createPay conn env options w)))
     = map (\<lambda>r. (rpc_method r, named_param ''amount'' r)) (issued w)
       @ [(''offer'', Some (js_string (cpo_amount options)))]"
  by (simp add: conn_createPay_def catch_conn_issued conn_createPay_body_def Let_def rpc_def
      named_param_def split: sum.splits)

lemma part000_createPay_issued:
  "map (\<lambda>r. (rpc_method r, named_param ''amount'' r))
       (issued (snd (part000_createPay conn env options w)))
     = map (\<lambda>r. (rpc_method r, named_param ''amount'' r)) (issued w)
       @ [(''offer'', Some (js_string (cpo_amount options)))]"
  by (simp add: part000_createPay_def catch_part000_issued part000_createPay_body_def
      conn_createPay_body_def Let_def rpc_def named_param_def split: sum.splits prod.splits)

text \<open>
  C7, as stated, fails on the connection module: \<open>createPay\<close> of
  \<open>connections/coreln/offers.ts\<close>, called without an amount, sends the \<open>offer\<close> request
  with the parameter \<open>amount\<close> \<open>undefined\<close>, not with the sentinel \<open>any\<close>.
\<close>

theorem conn_createPay_omits_absent_amount:
  "map (\<lambda>r. (rpc_method r, named_param ''amount'' r))
       (issued (snd (conn_createPay sample_connection sample_env
          (sample_pay_options\<lparr>cpo_amount := None\<rparr>) sample_world)))
     = [(''offer'', Some JUndefined)]
   \<and> map (\<lambda>r. (rpc_method r, named_param ''amount'' r))
       (issued (snd (conn_createPay sample_connection sample_env
          (sample_pay_options\<lparr>cpo_amount := None\<rparr>) sample_world)))
     \<noteq> [(''offer'', Some (JString ''any''))]"
  unfolding conn_createPay_issued
  by (simp add: sample_eval js_string_def)

text \<open>
  C7, amended. \<open>createPay\<close> of the wallet module issues one \<open>offer\<close> request whose
  parameter \<open>amount\<close> is \<open>satsToMsats(amount)\<close> when the amount is present, not empty and
  convertible, and the sentinel \<open>any\<close> when the amount is absent or the empty string.
  \<open>createPay\<close> of the two connection modules issues one \<open>offer\<close> request whose parameter
  \<open>amount\<close> is the amount option as it is, \<open>undefined\<close> when absent.
\<close>

theorem createPay_amount_param:
  "(cpo_amount o1 = Some a1 \<and> a1 \<noteq> [] \<and> satsToMsats a1 = Inr m \<longrightarrow>
      map (\<lambda>r. (rpc_method r, named_param ''amount'' r)) (issued (snd (createPay conn env o1 w)))
        = map (\<lambda>r. (rpc_method r, named_param ''amount'' r)) (issued w)
          @ [(''offer'', Some (JString m))])
   \<and> (cpo_amount o2 = None \<or> cpo_amount o2 = Some [] \<longrightarrow>
      map (\<lambda>r. (rpc_method r, named_param ''amount'' r)) (issued (snd (createPay conn env o2 w)))
        = map (\<lambda>r. (rpc_method r, named_param ''amount'' r)) (issued w)
          @ [(''offer'', Some (JString ''any''))])
   \<and> map (\<lambda>r. (rpc_method r, named_param ''amount'' r))
        (issued (snd (conn_createPay conn env o3 w)))
        = map (\<lambda>r. (rpc_method r, named_param ''amount'' r)) (issued w)
          @ [(''offer'', Some (js_string (cpo_amount o3)))]
   \<and> map (\<lambda>r. (rpc_method r, named_param ''amount'' r))
        (issued (snd (part000_createPay conn env o3 w)))
        = map (\<lambda>r. (rpc_method r, named_param ''amount'' r)) (issued w)
          @ [(''offer'', Some (js_string (cpo_amount o3)))]"
proof (intro conjI impI)
  assume "cpo_amount o1 = Some a1 \<and> a1 \<noteq> [] \<and> satsToMsats a1 = Inr m"
  then have "createPay_amount (cpo_amount o1) = Inr m"
    by (simp add: createPay_amount_def)
  then show "map (\<lambda>r. (rpc_method r, named_param ''amount'' r)) (issued (snd (createPay conn env o1 w)))
        = map (\<lambda>r. (rpc_method r, named_param ''amount'' r)) (issued w)
          @ [(''offer'', Some (JString m))]"
    by (rule createPay_issued)
next
  assume "cpo_amount o2 = None \<or> cpo_amount o2 = Some []"
  then have "createPay_amount (cpo_amount o2) = Inr ''any''"
    by (auto simp: createPay_amount_def)
  then show "map (\<lambda>r. (rpc_method r, named_param ''amount'' r)) (issued (snd (createPay conn env o2 w)))
        = map (\<lambda>r. (rpc_method r, named_param ''amount'' r)) (issued w)
          @ [(''offer'', Some (JString ''any''))]"
    by (rule createPay_issued)
next
  show "map (\<lambda>r. (rpc_method r, named_param ''amount'' r))
        (issued (snd (conn_createPay conn env o3 w)))
        = map (\<lambda>r. (rpc_method r, named_param ''amount'' r)) (issued w)
          @ [(''offer'', Some (js_string (cpo_amount o3)))]"
    by (rule conn_createPay_issued)
next
  show "map (\<lambda>r. (rpc_method r, named_param ''amount'' r))
        (issued (snd (part000_createPay conn env o3 w)))
        = map (\<lambda>r. (rpc_method r, named_param ''amount'' r)) (issued w)
          @ [(''offer'', Some (js_string (cpo_amount o3)))]"
    by (rule part000_createPay_issued)
qed

theorem createPay_amount_param_witness:
  "cpo_amount sample_pay_options = Some ''7'' \<and> ''7'' \<noteq> [] \<and> satsToMsats ''7'' = Inr ''7000''
   \<and> map (\<lambda>r. (rpc_method r, named_param ''amount'' r))
        (issued (snd (createPay sample_connection sample_env sample_pay_options sample_world)))
      = [(''offer'', Some (JString ''7000''))]
   \<and> cpo_amount (sample_pay_options\<lparr>cpo_amount := None\<rparr>) = None
   \<and> map (\<lambda>r. (rpc_method r, named_param ''amount'' r))
        (issued (snd (createPay sample_connection sample_env
           (sample_pay_options\<lparr>cpo_amount := None\<rparr>) sample_world)))
      = [(''offer'', Some (JString ''any''))]
   \<and> map (\<lambda>r. (rpc_method r, named_param ''amount'' r))
        (issued (snd (conn_createPay sample_connection sample_env sample_pay_options sample_world)))
      = [(''offer'', Some (JString ''7''))]"
proof -
  have msats: "satsToMsats ''7'' = Inr ''7000''"
    by (simp add: decimal_eval)
  have present: "cpo_amount sample_pay_options = Some ''7''"
    and absent: "cpo_amount (sample_pay_options\<lparr>cpo_amount := None\<rparr>) = None"
    by (simp_all add: sample_pay_options_def)
  show ?thesis
    using msats present absent
      createPay_amount_param[of sample_pay_options "''7''" "''7000''" sample_connection
        sample_env sample_world "sample_pay_options\<lparr>cpo_amount := None\<rparr>" sample_pay_options]
    by (simp add: sample_world_def js_string_def)
qed


section \<open>The completion time of sendInvoice\<close>

lemma completedAt_cases:
  "completedAt paid_at t0 = c \<longleftrightarrow>
     (case paid_at of None \<Rightarrow> c = t0 | Some t \<Rightarrow> c = (if t = 0 then t0 else t))"
  by (auto simp: completedAt_def split: option.splits)

lemma sendInvoice_body_resolved:
  assumes "fst (sendInvoice_body conn env options w) = Inr iv"
  shows "\<exists>result. rpc_sendinvoice conn
            (rpc_params (last (issued (snd (sendInvoice_body conn env options w))))) = Inr result
          \<and> i_completedAt iv
              = completedAt (sir_paid_at result) (now (snd (sendInvoice_body conn env options w)))"
  using assms
  by (auto simp: sendInvoice_body_def Let_def rpc_def split: sum.splits)

lemma conn_sendInvoice_body_resolved:
  assumes "fst (conn_sendInvoice_body conn env options w) = Inr pay"
  shows "\<exists>result. rpc_sendinvoice conn
            (rpc_params (last (issued (snd (conn_sendInvoice_body conn env options w))))) = Inr result
          \<and> p_completedAt pay
              = completedAt (sir_paid_at result) (now (snd (conn_sendInvoice_body conn env options w)))"
  using assms
  by (auto simp: conn_sendInvoice_body_def Let_def rpc_def split: sum.splits)

lemma part000_sendInvoice_body_resolved:
  assumes "fst (part000_sendInvoice_body conn env options w) = Inr pay"
  shows "\<exists>result. rpc_sendinvoice conn
            (rpc_params (last (issued (snd (part000_sendInvoice_body conn env options w))))) = Inr result
          \<and> p_completedAt pay
              = completedAt (sir_paid_at result) (now (snd (part000_sendInvoice_body conn env options w)))"
  using assms
  by (auto simp: part000_sendInvoice_body_def Let_def rpc_def split: sum.splits)

lemma catch_wallet_Inr:
  "fst (catch_wallet conn env ctx body) = Inr v \<Longrightarrow>
   fst body = Inr v \<and> snd (catch_wallet conn env ctx body) = snd body"
  by (cases body) (auto simp: catch_wallet_def Let_def split: sum.splits)

lemma catch_conn_Inr:
  "fst (catch_conn env ctx body) = Inr v \<Longrightarrow>
   fst body = Inr v \<and> snd (catch_conn env ctx body) = snd body"
  by (cases body) (auto simp: catch_conn_def split: sum.splits)

lemma catch_part000_Inr:
  "fst (catch_part000 conn env ctx body) = Inr v \<Longrightarrow>
   fst body = Inr v \<and> snd (catch_part000 conn env ctx body) = snd body"
  by (cases body) (auto simp: catch_part000_def Let_def split: sum.splits)

text \<open>
  C9, as stated, fails where the node reports \<open>paid_at = 0\<close>: \<open>sendInvoice\<close> of the wallet
  module then returns the reading of the clock, 1700000002, as \<open>completedAt\<close>, not the
  reported 0.
\<close>

theorem sendInvoice_zero_paid_at:
  "issued (snd (sendInvoice zero_paid_connection sample_env sample_send_options sample_world))
     = [\<lparr>rpc_method = ''sendinvoice'', rpc_params = Positional
          [JString ''lnr1withdraw'', JString ''label-1'', JString ''5000000'',
           JNumber 30, JNumber 1]\<rparr>]
   \<and> map_sum id sir_paid_at (rpc_sendinvoice zero_paid_connection (Positional
          [JString ''lnr1withdraw'', JString ''label-1'', JString ''5000000'',
           JNumber 30, JNumber 1]))
     = Inr (Some 0)
   \<and> map_sum id i_completedAt
        (fst (sendInvoice zero_paid_connection sample_env sample_send_options sample_world))
     = Inr 1700000002
   \<and> now (snd (sendInvoice zero_paid_connection sample_env sample_send_options sample_world))
     = 1700000002
   \<and> (1700000002 :: int) \<noteq> 0"
  by (simp add: sendInvoice_def sendInvoice_body_def catch_wallet_def amount_and_msats_def
      zero_paid_connection_def js_eval decimal_eval sample_eval Let_def)

text \<open>
  C9, amended. Whenever \<open>sendInvoice\<close> resolves (in the wallet module and in both
  connection modules), the node has answered the \<open>sendinvoice\<close> request that was issued,
  and the \<open>completedAt\<close> of the result is the \<open>paid_at\<close> of that answer when the node
  reported a \<open>paid_at\<close> other than 0; when the node reported no \<open>paid_at\<close>, or reported 0,
  it is the reading of the clock after the call has settled.
\<close>

theorem sendInvoice_completedAt:
  "(fst (sendInvoice conn env options w) = Inr iv \<longrightarrow>
      (\<exists>result.
         rpc_sendinvoice conn (rpc_params (last (issued (snd (sendInvoice conn env options w)))))
           = Inr result
         \<and> (case sir_paid_at result of
               None \<Rightarrow> i_completedAt iv = now (snd (sendInvoice conn env options w))
             | Some t \<Rightarrow> i_completedAt iv
                 = (if t = 0 then now (snd (sendInvoice conn env options w)) else t))))
   \<and> (fst (conn_sendInvoice conn env options w) = Inr pay \<longrightarrow>
      (\<exists>result.
         rpc_sendinvoice conn (rpc_params (last (issued (snd (conn_sendInvoice conn env options w)))))
           = Inr result
         \<and> (case sir_paid_at result of
               None \<Rightarrow> p_completedAt pay = now (snd (conn_sendInvoice conn env options w))
             | Some t \<Rightarrow> p_completedAt pay
                 = (if t = 0 then now (snd (conn_sendInvoice conn env options w)) else t))))
   \<and> (fst (part000_sendInvoice conn env options w) = Inr pay' \<longrightarrow>
      (\<exists>result.
         rpc_sendinvoice conn
           (rpc_params (last (issued (snd (part000_sendInvoice conn env options w)))))
           = Inr result
         \<and> (case sir_paid_at result of
               None \<Rightarrow> p_completedAt pay' = now (snd (part000_sendInvoice conn env options w))
             | Some t \<Rightarrow> p_completedAt pay'
                 = (if t = 0 then now (snd (part000_sendInvoice conn env options w)) else t))))"
proof (intro conjI impI)
  assume "fst (sendInvoice conn env options w) = Inr iv"
  then have "fst (sendInvoice_body conn env options w) = Inr iv"
    and "snd (sendInvoice conn env options w) = snd (sendInvoice_body conn env options w)"
    using catch_wallet_Inr[of conn env "''sendInvoice (offers)''" "sendInvoice_body conn env options w" iv]
    by (simp_all add: sendInvoice_def)
  then show "\<exists>result.
         rpc_sendinvoice conn (rpc_params (last (issued (snd (sendInvoice conn env options w)))))
           = Inr result
         \<and> (case sir_paid_at result of
               None \<Rightarrow> i_completedAt iv = now (snd (sendInvoice conn env options w))
             | Some t \<Rightarrow> i_completedAt iv
                 = (if t = 0 then now (snd (sendInvoice conn env options w)) else t))"
    using sendInvoice_body_resolved[of conn env options w iv]
    by (auto simp: completedAt_def split: option.splits)
next
  assume "fst (conn_sendInvoice conn env options w) = Inr pay"
  then have "fst (conn_sendInvoice_body conn env options w) = Inr pay"
    and "snd (conn_sendInvoice conn env options w) = snd (conn_sendInvoice_body conn env options w)"
    using catch_conn_Inr[of env "''sendInvoice (offers)''" "conn_sendInvoice_body conn env options w" pay]
    by (simp_all add: conn_sendInvoice_def)
  then show "\<exists>result.
         rpc_sendinvoice conn (rpc_params (last (issued (snd (conn_sendInvoice conn env options w)))))
           = Inr result
         \<and> (case sir_paid_at result of
               None \<Rightarrow> p_completedAt pay = now (snd (conn_sendInvoice conn env options w))
             | Some t \<Rightarrow> p_completedAt pay
                 = (if t = 0 then now (snd (conn_sendInvoice conn env options w)) else t))"
    using conn_sendInvoice_body_resolved[of conn env options w pay]
    by (auto simp: completedAt_def split: option.splits)
next
  assume "fst (part000_sendInvoice conn env options w) = Inr pay'"
  then have "fst (part000_sendInvoice_body conn env options w) = Inr pay'"
    and "snd (part000_sendInvoice conn env options w)
          = snd (part000_sendInvoice_body conn env options w)"
    using catch_part000_Inr[of conn env "''sendInvoice (offers)''"
        "part000_sendInvoice_body conn env options w" pay']
    by (simp_all add: part000_sendInvoice_def)
  then show "\<exists>result.
         rpc_sendinvoice conn
           (rpc_params (last (issued (snd (part000_sendInvoice conn env options w)))))
           = Inr result
         \<and> (case sir_paid_at result of
               None \<Rightarrow> p_completedAt pay' = now (snd (part000_sendInvoice conn env options w))
             | Some t \<Rightarrow> p_completedAt pay'
                 = (if t = 0 then now (snd (part000_sendInvoice conn env options w)) else t))"
    using part000_sendInvoice_body_resolved[of conn env options w pay']
    by (auto simp: completedAt_def split: option.splits)
qed


theorem sendInvoice_completedAt_witness:
  "fst (sendInvoice sample_connection sample_env sample_send_options sample_world)
     = Inr sample_received
   \<and> fst (conn_sendInvoice sample_connection sample_env sample_send_options sample_world)
     = Inr sample_conn_received
   \<and> fst (part000_sendInvoice sample_connection sample_env sample_send_options sample_world)
     = Inr sample_part000_received
   \<and> (\<exists>result.
         rpc_sendinvoice sample_connection (rpc_params (last (issued (snd
           (sendInvoice sample_connection sample_env sample_send_options sample_world)))))
           = Inr result
         \<and> (case sir_paid_at result of
               None \<Rightarrow> i_completedAt sample_received = now (snd
                 (sendInvoice sample_connection sample_env sample_send_options sample_world))
             | Some t \<Rightarrow> i_completedAt sample_received
                 = (if t = 0 then now (snd
                 (sendInvoice sample_connection sample_env sample_send_options sample_world))
                    else t)))"
proof -
  have wallet: "fst (sendInvoice sample_connection sample_env sample_send_options sample_world)
     = Inr sample_received"
    by (simp add: sendInvoice_def sendInvoice_body_def catch_wallet_def amount_and_msats_def
        sample_received_def js_eval decimal_eval sample_eval Let_def)
  have conn: "fst (conn_sendInvoice sample_connection sample_env sample_send_options sample_world)
     = Inr sample_conn_received"
    by (simp add: conn_sendInvoice_def conn_sendInvoice_body_def catch_conn_def
        sample_conn_received_def js_eval decimal_eval sample_eval Let_def)
  have part000:
    "fst (part000_sendInvoice sample_connection sample_env sample_send_options sample_world)
     = Inr sample_part000_received"
    by (simp add: part000_sendInvoice_def part000_sendInvoice_body_def catch_part000_def
        sample_part000_received_def js_eval decimal_eval sample_eval Let_def)
  show ?thesis
    using wallet conn part000
      sendInvoice_completedAt[of sample_connection sample_env sample_send_options sample_world
        sample_received sample_conn_received sample_part000_received]
    by blast
qed


section \<open>Decimal strings and the fee of payInvoice\<close>

lemma digit_value_digit_char: "digit_value (digit_char d) = Some (d mod 10)"
proof -
  have "d mod 10 < 10" by simp
  then have "d mod 10 = 0 \<or> d mod 10 = 1 \<or> d mod 10 = 2 \<or> d mod 10 = 3 \<or> d mod 10 = 4
      \<or> d mod 10 = 5 \<or> d mod 10 = 6 \<or> d mod 10 = 7 \<or> d mod 10 = 8 \<or> d mod 10 = 9"
    by arith
  then show ?thesis
    unfolding digit_char_def by (elim disjE) (simp_all add: digit_value_def)
qed

lemma parse_digits_snoc:
  "parse_digits (xs @ [c]) acc =
     (case parse_digits xs acc of
        None \<Rightarrow> None
      | Some v \<Rightarrow> (case digit_value c of None \<Rightarrow> None | Some d \<Rightarrow> Some (10 * v + d)))"
  by (induction xs arbitrary: acc) (auto split: option.splits)

lemma parse_digits_show_nat: "parse_digits (show_nat n) 0 = Some n"
proof (induction n rule: show_nat.induct)
  case (1 n)
  show ?case
  proof (cases "n < 10")
    case True
    then show ?thesis
      by (subst show_nat.simps) (simp add: digit_value_digit_char)
  next
    case False
    with 1 have "parse_digits (show_nat (n div 10)) 0 = Some (n div 10)" by simp
    with False show ?thesis
      by (subst show_nat.simps) (simp add: parse_digits_snoc digit_value_digit_char)
  qed
qed

lemma parse_nat_show_nat: "parse_nat (show_nat n) = Some n"
  by (simp add: parse_nat_def show_nat_nonempty parse_digits_show_nat)

lemma digit_value_minus: "digit_value CHR ''-'' = None"
  by (simp add: digit_value_def)

lemma Big_digits: "parse_nat s = Some n \<Longrightarrow> Big s = Inr (int n)"
  by (cases s) (auto simp: Big_def parse_nat_def digit_value_minus)

lemma Big_Big_toString: "Big (Big_toString i) = Inr i"
proof (cases "i < 0")
  case True
  then show ?thesis
    by (simp add: Big_toString_def Big_def parse_nat_show_nat)
next
  case False
  then show ?thesis
    by (simp add: Big_toString_def Big_digits[OF parse_nat_show_nat])
qed

lemma msatsToSats_Big_toString:
  "msatsToSats (Big_toString d) = Inr (Big_toString (nearest_sat d))"
  by (simp add: msatsToSats_def Big_Big_toString)

lemma nearest_sat_whole: "1000 dvd d \<Longrightarrow> nearest_sat d * 1000 = d"
proof -
  assume "1000 dvd d"
  then obtain k where k: "d = 1000 * k" by (rule dvdE)
  have "(500 + 1000 * k) div 1000 = k + 500 div (1000::int)"
    by (rule div_mult_self2) simp
  then have up: "(1000 * k + 500) div 1000 = k"
    by (simp add: add.commute)
  have "(500 + 1000 * (- k)) div 1000 = (- k) + 500 div (1000::int)"
    by (rule div_mult_self2) simp
  then have down: "(- (1000 * k) + 500) div 1000 = - k"
    by (simp add: add.commute)
  show ?thesis using up down by (simp add: nearest_sat_def k)
qed

lemma nearest_sat_close: "\<bar>nearest_sat d * 1000 - d\<bar> \<le> 500"
proof (cases "0 \<le> d")
  case True
  have "(d + 500) div 1000 * 1000 + (d + 500) mod 1000 = d + 500"
    by (rule div_mult_mod_eq)
  moreover have "0 \<le> (d + 500) mod 1000" "(d + 500) mod 1000 < 1000"
    by simp_all
  ultimately show ?thesis using True by (simp add: nearest_sat_def)
next
  case False
  have "(- d + 500) div 1000 * 1000 + (- d + 500) mod 1000 = - d + 500"
    by (rule div_mult_mod_eq)
  moreover have "0 \<le> (- d + 500) mod 1000" "(- d + 500) mod 1000 < 1000"
    by simp_all
  ultimately show ?thesis using False by (simp add: nearest_sat_def)
qed

lemma Big_toString_zero: "Big_toString 0 = ''0''"
  by (simp add: Big_toString_def show_nat.simps digit_char_def)

lemma formatMsatString_digits:
  "formatMsatString raw = Inr s \<Longrightarrow> \<exists>n. parse_nat s = Some n"
  by (auto simp: formatMsatString_def Let_def split: option.splits if_splits)


lemma msat_value_formatted:
  "formatMsatString (Some raw) = Inr s \<Longrightarrow> \<exists>n. Big s = Inr (int n) \<and> msat_value raw = Inr (int n)"
  using formatMsatString_digits[of "Some raw" s]
  by (auto simp: msat_value_def and_then_def Big_digits)

lemma payInvoice_fee_value:
  "msat_value sent_raw = Inr sent \<Longrightarrow> msat_value amount_raw = Inr amount \<Longrightarrow>
   payInvoice_fee sent_raw amount_raw = Inr (Big_toString (nearest_sat (sent - amount)))"
  by (auto simp: payInvoice_fee_def msat_value_def and_then_def msatsToSats_Big_toString
      split: sum.splits)

lemma payInvoice_fee_resolved:
  "payInvoice_fee sent_raw amount_raw = Inr fee \<Longrightarrow>
   \<exists>sent amount. msat_value sent_raw = Inr sent \<and> msat_value amount_raw = Inr amount"
  by (auto simp: payInvoice_fee_def msat_value_def and_then_def split: sum.splits)

lemma msat_value_to_sats:
  "msat_value raw = Inr v \<Longrightarrow> \<exists>sats. and_then (formatMsatString (Some raw)) msatsToSats = Inr sats"
  by (auto simp: msat_value_def and_then_def msatsToSats_def split: sum.splits)

lemma payInvoice_body_resolved:
  assumes "fst (payInvoice_body conn env bolt12 w) = Inr iv"
  shows "\<exists>result fee. rpc_pay conn (Positional [JString bolt12]) = Inr result
          \<and> payInvoice_fee (pr_amount_sent_msat result) (pr_amount_msat result) = Inr fee
          \<and> i_fee iv = Some fee"
  using assms
  by (auto simp: payInvoice_body_def Let_def split: sum.splits)

lemma payInvoice_body_total:
  assumes "rpc_pay conn (Positional [JString bolt12]) = Inr result"
    and "msat_value (pr_amount_sent_msat result) = Inr sent"
    and "msat_value (pr_amount_msat result) = Inr amount"
  shows "\<exists>iv. fst (payInvoice_body conn env bolt12 w) = Inr iv"
proof -
  obtain sats where "and_then (formatMsatString (Some (pr_amount_msat result))) msatsToSats = Inr sats"
    using msat_value_to_sats[OF assms(3)] by blast
  then show ?thesis
    using assms(1) payInvoice_fee_value[OF assms(2,3)]
    by (simp add: payInvoice_body_def Let_def)
qed



text \<open>
  C8, as stated, fails where the difference is not a whole number of satoshis: with
  \<open>amount_msat = "100000"\<close> and \<open>amount_sent_msat = "101400"\<close> the difference is 1400
  millisatoshis and the fee of the invoice is \<open>1\<close>, that is 1000 millisatoshis.
\<close>

theorem payInvoice_fee_rounds:
  "map_sum id (\<lambda>r. (pr_amount_sent_msat r, pr_amount_msat r))
       (rpc_pay subsat_connection (Positional [JString ''lni1invoice'']))
     = Inr (''101400'', ''100000'')
   \<and> msat_value ''101400'' = Inr 101400
   \<and> msat_value ''100000'' = Inr 100000
   \<and> map_sum id i_fee (fst (payInvoice subsat_connection sample_env ''lni1invoice'' sample_world))
     = Inr (Some ''1'')
   \<and> Big ''1'' = Inr 1
   \<and> (1 :: int) * 1000 \<noteq> 101400 - 100000"
  by (simp add: payInvoice_def payInvoice_body_def payInvoice_fee_def catch_wallet_def
      subsat_connection_def msat_value_def js_eval decimal_eval sample_eval Let_def)

text \<open>
  C8, amended. Whenever \<open>payInvoice\<close> resolves, the node has answered \<open>pay\<close> with amounts
  \<open>amount_sent_msat\<close> and \<open>amount_msat\<close> that denote numbers \<open>sent\<close> and \<open>amount\<close> of
  millisatoshis, and the fee of the invoice is \<open>msatsToSats\<close> of the exact difference
  \<open>sent - amount\<close>: a whole number of satoshis within 500 millisatoshis of the difference,
  equal to the difference when that is a whole number of satoshis, and \<open>0\<close> for a zero
  difference. Conversely, \<open>payInvoice\<close> resolves whenever the node answers with two
  well-formed amounts, whatever their difference. With \<open>amount_msat = "100000"\<close> and
  \<open>amount_sent_msat = "101000"\<close> the fee is \<open>1\<close>.
\<close>

theorem payInvoice_fee_rounded:
  "(fst (payInvoice conn env bolt12 w) = Inr iv \<longrightarrow>
      (\<exists>result sent amount.
         rpc_pay conn (Positional [JString bolt12]) = Inr result
         \<and> msat_value (pr_amount_sent_msat result) = Inr sent
         \<and> msat_value (pr_amount_msat result) = Inr amount
         \<and> msatsToSats (Big_toString (sent - amount)) = Inr (Big_toString (nearest_sat (sent - amount)))
         \<and> i_fee iv = Some (Big_toString (nearest_sat (sent - amount)))
         \<and> (1000 dvd sent - amount \<longrightarrow> nearest_sat (sent - amount) * 1000 = sent - amount)
         \<and> \<bar>nearest_sat (sent - amount) * 1000 - (sent - amount)\<bar> \<le> 500
         \<and> (sent = amount \<longrightarrow> i_fee iv = Some ''0'')))
   \<and> (rpc_pay conn' (Positional [JString bolt12']) = Inr result'
        \<and> msat_value (pr_amount_sent_msat result') = Inr sent'
        \<and> msat_value (pr_amount_msat result') = Inr amount' \<longrightarrow>
      (\<exists>iv'. fst (payInvoice conn' env' bolt12' w') = Inr iv'))"
proof (intro conjI impI)
  assume "fst (payInvoice conn env bolt12 w) = Inr iv"
  then have "fst (payInvoice_body conn env bolt12 w) = Inr iv"
    using catch_wallet_Inr[of conn env "''sendInvoice (offers)''" "payInvoice_body conn env bolt12 w" iv]
    by (simp add: payInvoice_def)
  then obtain result fee where
    result: "rpc_pay conn (Positional [JString bolt12]) = Inr result"
    and fee: "payInvoice_fee (pr_amount_sent_msat result) (pr_amount_msat result) = Inr fee"
    and iv: "i_fee iv = Some fee"
    using payInvoice_body_resolved by blast
  from fee obtain sent amount where
    sent: "msat_value (pr_amount_sent_msat result) = Inr sent"
    and amount: "msat_value (pr_amount_msat result) = Inr amount"
    using payInvoice_fee_resolved by blast
  have fee_eq: "fee = Big_toString (nearest_sat (sent - amount))"
    using fee payInvoice_fee_value[OF sent amount] by simp
  have zero: "sent = amount \<longrightarrow> i_fee iv = Some ''0''"
    using iv fee_eq by (simp add: nearest_sat_def Big_toString_zero)
  show "\<exists>result sent amount.
         rpc_pay conn (Positional [JString bolt12]) = Inr result
         \<and> msat_value (pr_amount_sent_msat result) = Inr sent
         \<and> msat_value (pr_amount_msat result) = Inr amount
         \<and> msatsToSats (Big_toString (sent - amount)) = Inr (Big_toString (nearest_sat (sent - amount)))
         \<and> i_fee iv = Some (Big_toString (nearest_sat (sent - amount)))
         \<and> (1000 dvd sent - amount \<longrightarrow> nearest_sat (sent - amount) * 1000 = sent - amount)
         \<and> \<bar>nearest_sat (sent - amount) * 1000 - (sent - amount)\<bar> \<le> 500
         \<and> (sent = amount \<longrightarrow> i_fee iv = Some ''0'')"
    using result sent amount iv fee_eq zero msatsToSats_Big_toString nearest_sat_whole
      nearest_sat_close
    by blast
next
  assume a: "rpc_pay conn' (Positional [JString bolt12']) = Inr result'
        \<and> msat_value (pr_amount_sent_msat result') = Inr sent'
        \<and> msat_value (pr_amount_msat result') = Inr amount'"
  then obtain iv' where "fst (payInvoice_body conn' env' bolt12' w') = Inr iv'"
    using payInvoice_body_total[of conn' bolt12' result' sent' amount' env' w'] by blast
  then have "fst (payInvoice conn' env' bolt12' w') = Inr iv'"
    by (cases "payInvoice_body conn' env' bolt12' w'") (simp add: payInvoice_def catch_wallet_def)
  then show "\<exists>iv'. fst (payInvoice conn' env' bolt12' w') = Inr iv'" ..
qed

theorem payInvoice_fee_rounded_witness:
  "fst (payInvoice sample_connection sample_env ''lni1invoice'' sample_world) = Inr sample_paid
   \<and> rpc_pay sample_connection (Positional [JString ''lni1invoice''])
        = Inr \<lparr>pr_payment_hash = ''00ff'', pr_payment_preimage = Some ''11aa'',
               pr_created_at = 1700000000, pr_amount_msat = ''100000'',
               pr_amount_sent_msat = ''101000'', pr_status = ''complete'',
               pr_destination = Some ''02abc''\<rparr>
   \<and> msat_value ''101000'' = Inr 101000
   \<and> msat_value ''100000'' = Inr 100000
   \<and> i_fee sample_paid = Some ''1''
   \<and> (\<exists>result sent amount.
         rpc_pay sample_connection (Positional [JString ''lni1invoice'']) = Inr result
         \<and> msat_value (pr_amount_sent_msat result) = Inr sent
         \<and> msat_value (pr_amount_msat result) = Inr amount
         \<and> i_fee sample_paid = Some (Big_toString (nearest_sat (sent - amount))))
   \<and> (\<exists>iv'. fst (payInvoice sample_connection sample_env ''lni1invoice'' sample_world) = Inr iv')"
proof -
  have paid: "fst (payInvoice sample_connection sample_env ''lni1invoice'' sample_world)
      = Inr sample_paid"
    by (simp add: payInvoice_def payInvoice_body_def payInvoice_fee_def catch_wallet_def
        sample_paid_def js_eval decimal_eval sample_eval Let_def)
  have answer: "rpc_pay sample_connection (Positional [JString ''lni1invoice''])
        = Inr \<lparr>pr_payment_hash = ''00ff'', pr_payment_preimage = Some ''11aa'',
               pr_created_at = 1700000000, pr_amount_msat = ''100000'',
               pr_amount_sent_msat = ''101000'', pr_status = ''complete'',
               pr_destination = Some ''02abc''\<rparr>"
    by (simp add: sample_connection_def)
  have sent: "msat_value ''101000'' = Inr 101000"
    and amount: "msat_value ''100000'' = Inr 100000"
    by (simp_all add: msat_value_def decimal_eval)
  have fee: "i_fee sample_paid = Some ''1''"
    by (simp add: sample_paid_def)
  show ?thesis
    using paid answer sent amount fee
      payInvoice_fee_rounded[of sample_connection sample_env "''lni1invoice''" sample_world
        sample_paid sample_connection "''lni1invoice''"
        "\<lparr>pr_payment_hash = ''00ff'', pr_payment_preimage = Some ''11aa'',
               pr_created_at = 1700000000, pr_amount_msat = ''100000'',
               pr_amount_sent_msat = ''101000'', pr_status = ''complete'',
               pr_destination = Some ''02abc''\<rparr>" 101000 100000 sample_env sample_world]
    by auto
qed


section \<open>The order of the offers that get returns\<close>

lemma map_formatted_pay:
  "map (decodeBolt12 env \<circ> os_bolt12) offers = map Inr ds \<Longrightarrow>
   map (\<lambda>offer. and_then (decodeBolt12 env (os_bolt12 offer))
                    (\<lambda>decoded. Inr (formatted_pay conn offer decoded))) offers
     = map Inr (map2 (formatted_pay conn) offers ds)"
proof (induction offers arbitrary: ds)
  case Nil
  then show ?case by simp
next
  case (Cons offer offers)
  then obtain d ds' where "ds = d # ds'" by (cases ds) auto
  with Cons show ?case by (simp add: and_then_def)
qed

lemma map_formatted_withdraw:
  "map (decodeBolt12 env \<circ> irs_bolt12) invoicerequests = map Inr ds \<Longrightarrow>
   map (\<lambda>offer. and_then (decodeBolt12 env (irs_bolt12 offer))
                    (\<lambda>decoded. Inr (formatted_withdraw conn offer decoded))) invoicerequests
     = map Inr (map2 (formatted_withdraw conn) invoicerequests ds)"
proof (induction invoicerequests arbitrary: ds)
  case Nil
  then show ?case by simp
next
  case (Cons offer invoicerequests)
  then obtain d ds' where "ds = d # ds'" by (cases ds) auto
  with Cons show ?case by (simp add: and_then_def)
qed

lemma map2_formatted_pay_id:
  "length ds = length offers \<Longrightarrow>
   map o_id (map2 (formatted_pay conn) offers ds) = map os_offer_id offers
   \<and> map o_type (map2 (formatted_pay conn) offers ds) = replicate (length offers) Pay"
  by (induction offers ds rule: list_induct2') (auto simp: formatted_pay_def)

lemma map2_formatted_withdraw_id:
  "length ds = length invoicerequests \<Longrightarrow>
   map o_id (map2 (formatted_withdraw conn) invoicerequests ds) = map irs_invreq_id invoicerequests
   \<and> map o_type (map2 (formatted_withdraw conn) invoicerequests ds)
       = replicate (length invoicerequests) Withdraw"
  by (induction invoicerequests ds rule: list_induct2') (auto simp: formatted_withdraw_def)

lemma conn_format_bolt12:
  "conn_format env entry = Inr listed \<Longrightarrow>
   o_bolt12 (lo_offer listed) = (case entry of Inl s \<Rightarrow> os_bolt12 s | Inr s \<Rightarrow> irs_bolt12 s)"
  by (auto simp: conn_format_def and_then_def split: sum.splits)

lemma map_conn_format_bolt12:
  "map (conn_format env) entries = map Inr listed \<Longrightarrow>
   map (o_bolt12 \<circ> lo_offer) listed
     = map (\<lambda>entry. case entry of Inl s \<Rightarrow> os_bolt12 s | Inr s \<Rightarrow> irs_bolt12 s) entries"
proof (induction entries arbitrary: listed)
  case Nil
  then show ?case by simp
next
  case (Cons entry entries)
  then obtain l ls where "listed = l # ls" by (cases listed) auto
  with Cons show ?case using conn_format_bolt12[of env entry l] by auto
qed

lemma get_resolved:
  assumes "rpc_listoffers conn = Inr offers"
    and "rpc_listinvoicerequests conn = Inr invoicerequests"
    and "map (decodeBolt12 env \<circ> os_bolt12) offers = map Inr ds"
    and "map (decodeBolt12 env \<circ> irs_bolt12) invoicerequests = map Inr ds'"
  shows "fst (get conn env sched w)
     = Inr (map2 (formatted_pay conn) offers ds
            @ map2 (formatted_withdraw conn) invoicerequests ds')"
proof -
  have pay: "Promise_all
      (map (\<lambda>offer. and_then (decodeBolt12 env (os_bolt12 offer))
                       (\<lambda>decoded. Inr (formatted_pay conn offer decoded))) offers)
      (offers_settled_at sched) = Inr (map2 (formatted_pay conn) offers ds)"
    by (simp only: map_formatted_pay[OF assms(3)] Promise_all_fulfilled)
  have withdraw: "Promise_all
      (map (\<lambda>offer. and_then (decodeBolt12 env (irs_bolt12 offer))
                       (\<lambda>decoded. Inr (formatted_withdraw conn offer decoded))) invoicerequests)
      (invoicerequests_settled_at sched)
      = Inr (map2 (formatted_withdraw conn) invoicerequests ds')"
    by (simp only: map_formatted_withdraw[OF assms(4)] Promise_all_fulfilled)
  show ?thesis
    by (simp add: get_def get_body_def catch_wallet_def Promise_all2_def Let_def
        assms(1,2) pay withdraw)
qed

lemma conn_get_resolved:
  assumes "rpc_listoffers conn = Inr offers"
    and "rpc_listinvoicerequests conn = Inr invoicerequests"
    and "map (conn_format env) (map Inl offers @ map Inr invoicerequests) = map Inr listed"
  shows "fst (conn_get conn env sched w) = Inr listed"
proof -
  have "Promise_all (map (conn_format env) (map Inl offers @ map Inr invoicerequests))
      (cg_settled_at sched) = Inr listed"
    by (simp only: assms(3) Promise_all_fulfilled)
  then show ?thesis
    by (simp add: conn_get_def Promise_all2_def Let_def assms(1,2))
qed


text \<open>
  C5. When both list calls are answered and every entry decodes, \<open>get\<close> returns one
  offer per entry: the pay offers first, in the order in which \<open>listoffers\<close> returned
  them, then the invoice requests, in the order in which \<open>listinvoicerequests\<close> returned
  them; each offer is made from the entry at its position and from the decoding of that
  entry. This holds for every schedule, that is, in whatever order the list calls and the
  decode calls settle. For the wallet module the ids and the types of the result are
  those of the entries; for the connection module each listed offer is the formatting of
  the entry at its position.
\<close>

theorem get_order:
  "(rpc_listoffers conn = Inr offers \<and> rpc_listinvoicerequests conn = Inr invoicerequests
    \<and> map (decodeBolt12 env \<circ> os_bolt12) offers = map Inr ds
    \<and> map (decodeBolt12 env \<circ> irs_bolt12) invoicerequests = map Inr ds' \<longrightarrow>
      fst (get conn env sched w)
        = Inr (map2 (formatted_pay conn) offers ds
               @ map2 (formatted_withdraw conn) invoicerequests ds')
      \<and> map o_id (map2 (formatted_pay conn) offers ds
                    @ map2 (formatted_withdraw conn) invoicerequests ds')
          = map os_offer_id offers @ map irs_invreq_id invoicerequests
      \<and> map o_type (map2 (formatted_pay conn) offers ds
                      @ map2 (formatted_withdraw conn) invoicerequests ds')
          = replicate (length offers) Pay @ replicate (length invoicerequests) Withdraw)
   \<and> (rpc_listoffers conn = Inr offers \<and> rpc_listinvoicerequests conn = Inr invoicerequests
    \<and> map (conn_format env) (map Inl offers @ map Inr invoicerequests) = map Inr listed \<longrightarrow>
      fst (conn_get conn env csched w) = Inr listed
      \<and> map (o_bolt12 \<circ> lo_offer) listed
          = map os_bolt12 offers @ map irs_bolt12 invoicerequests)"
proof (intro conjI impI)
  assume a: "rpc_listoffers conn = Inr offers \<and> rpc_listinvoicerequests conn = Inr invoicerequests
    \<and> map (decodeBolt12 env \<circ> os_bolt12) offers = map Inr ds
    \<and> map (decodeBolt12 env \<circ> irs_bolt12) invoicerequests = map Inr ds'"
  then have len: "length ds = length offers" "length ds' = length invoicerequests"
    by (metis length_map)+
  from a show "fst (get conn env sched w)
        = Inr (map2 (formatted_pay conn) offers ds
               @ map2 (formatted_withdraw conn) invoicerequests ds')"
    by (simp add: get_resolved)
  show "map o_id (map2 (formatted_pay conn) offers ds
                    @ map2 (formatted_withdraw conn) invoicerequests ds')
          = map os_offer_id offers @ map irs_invreq_id invoicerequests"
    using map2_formatted_pay_id[OF len(1)] map2_formatted_withdraw_id[OF len(2)]
    by (simp del: map_map)
  show "map o_type (map2 (formatted_pay conn) offers ds
                      @ map2 (formatted_withdraw conn) invoicerequests ds')
          = replicate (length offers) Pay @ replicate (length invoicerequests) Withdraw"
    using map2_formatted_pay_id[OF len(1)] map2_formatted_withdraw_id[OF len(2)]
    by (simp del: map_map)
next
  assume a: "rpc_listoffers conn = Inr offers \<and> rpc_listinvoicerequests conn = Inr invoicerequests
    \<and> map (conn_format env) (map Inl offers @ map Inr invoicerequests) = map Inr listed"
  then show "fst (conn_get conn env csched w) = Inr listed"
    using conn_get_resolved[of conn offers invoicerequests env listed] by blast
  from a have "map (o_bolt12 \<circ> lo_offer) listed
     = map (\<lambda>entry. case entry of Inl s \<Rightarrow> os_bolt12 s | Inr s \<Rightarrow> irs_bolt12 s)
         (map Inl offers @ map Inr invoicerequests)"
    using map_conn_format_bolt12 by blast
  then show "map (o_bolt12 \<circ> lo_offer) listed
          = map os_bolt12 offers @ map irs_bolt12 invoicerequests"
    by (simp add: comp_def)
qed


theorem get_order_witness:
  "rpc_listoffers sample_connection = Inr sample_offers
   \<and> rpc_listinvoicerequests sample_connection = Inr sample_invoicerequests
   \<and> map (decodeBolt12 sample_env \<circ> os_bolt12) sample_offers = map Inr [sample_decoded]
   \<and> map (decodeBolt12 sample_env \<circ> irs_bolt12) sample_invoicerequests = map Inr [sample_decoded]
   \<and> map (conn_format sample_env) (map Inl sample_offers @ map Inr sample_invoicerequests)
       = map Inr sample_listed
   \<and> fst (get sample_connection sample_env sample_schedule sample_world)
       = Inr (map2 (formatted_pay sample_connection) sample_offers [sample_decoded]
              @ map2 (formatted_withdraw sample_connection) sample_invoicerequests [sample_decoded])
   \<and> map o_id (map2 (formatted_pay sample_connection) sample_offers [sample_decoded]
        @ map2 (formatted_withdraw sample_connection) sample_invoicerequests [sample_decoded])
       = [''o1'', ''w1'']
   \<and> map o_type (map2 (formatted_pay sample_connection) sample_offers [sample_decoded]
        @ map2 (formatted_withdraw sample_connection) sample_invoicerequests [sample_decoded])
       = [Pay, Withdraw]
   \<and> fst (conn_get sample_connection sample_env sample_conn_schedule sample_world)
       = Inr sample_listed
   \<and> map (o_bolt12 \<circ> lo_offer) sample_listed = [''lno1pay'', ''lnr1withdraw'']"
proof -
  have lists: "rpc_listoffers sample_connection = Inr sample_offers"
    "rpc_listinvoicerequests sample_connection = Inr sample_invoicerequests"
    by (simp_all add: sample_connection_def)
  have decoded:
    "map (decodeBolt12 sample_env \<circ> os_bolt12) sample_offers = map Inr [sample_decoded]"
    "map (decodeBolt12 sample_env \<circ> irs_bolt12) sample_invoicerequests = map Inr [sample_decoded]"
    by (simp_all add: sample_env_def sample_offers_def sample_invoicerequests_def)
  have formatted:
    "map (conn_format sample_env) (map Inl sample_offers @ map Inr sample_invoicerequests)
       = map Inr sample_listed"
    by (simp add: conn_format_def and_then_def sample_env_def sample_offers_def
        sample_invoicerequests_def sample_listed_def sample_offer_def)
  have ids: "map os_offer_id sample_offers @ map irs_invreq_id sample_invoicerequests
      = [''o1'', ''w1'']"
    "replicate (length sample_offers) Pay @ replicate (length sample_invoicerequests) Withdraw
      = [Pay, Withdraw]"
    "map os_bolt12 sample_offers @ map irs_bolt12 sample_invoicerequests
      = [''lno1pay'', ''lnr1withdraw'']"
    by (simp_all add: sample_offers_def sample_invoicerequests_def)
  show ?thesis
    using lists decoded formatted ids
      get_order[of sample_connection sample_offers sample_invoicerequests sample_env
        "[sample_decoded]" "[sample_decoded]" sample_schedule sample_world sample_listed
        sample_conn_schedule]
    by (simp del: map_map map_append)
qed


end
